theory Spec2Isabelle
  imports Main "HOL-Library.AList" "HOL-Library.Word"
begin

section \<open>JavaScript values\<close>

text \<open>
  Identifiers, object keys and URLs are modelled as \<open>string\<close>; the only operations the
  code performs on them are prefix tests, digit tests, searching for \<open>-\<close> and
  concatenation. Prompt texts are modelled as lists of UTF-16 code units, because the
  prompt sanitiser of \<open>services/chat.js\<close> filters on code-unit ranges.
  A property that may be absent (\<open>undefined\<close> or \<open>null\<close>) has an \<open>option\<close> type;
  a string is truthy when it is present and non-empty.
\<close>

type_synonym jsstring = "16 word list"

definition truthy :: "'a list option \<Rightarrow> bool" where
  "truthy v = (case v of None \<Rightarrow> False | Some s \<Rightarrow> s \<noteq> [])"

text \<open>\<open>a || b\<close> on an optional string and a default.\<close>

definition js_or :: "'a list option \<Rightarrow> 'a list \<Rightarrow> 'a list" where
  "js_or a b = (case a of None \<Rightarrow> b | Some s \<Rightarrow> if s \<noteq> [] then s else b)"

definition cloudfront :: "string \<Rightarrow> string" where
  "cloudfront key = ''https://ds0fghatf06yb.cloudfront.net/'' @ key"

section \<open>FlowWidget: the reconciled view \<open>flowData\<close>\<close>

subsection \<open>Segment identifiers\<close>

definition is_digit :: "char \<Rightarrow> bool" where
  "is_digit c = (c \<in> set ''0123456789'')"

definition after_seg :: "string \<Rightarrow> string option" where
  "after_seg s = (if take 4 s = ''seg-'' then Some (drop 4 s) else None)"

text \<open>
  Image path: \<^verbatim>\<open>img.uuid.replace(/^seg-(\d+)(?:-\d+)?$/, '$1')\<close>. The pattern is anchored
  at both ends, so it either matches the whole string or leaves it unchanged. After the
  digits of group 1 only \<open>-\<close> or the end may follow, so the greedy match is the only one.
\<close>

definition image_segmentId :: "string \<Rightarrow> string" where
  "image_segmentId uuid =
     (case after_seg uuid of
        None \<Rightarrow> uuid
      | Some rest \<Rightarrow>
          (let n = takeWhile is_digit rest; sfx = dropWhile is_digit rest
           in if n = [] then uuid
              else if sfx = [] then n
              else if hd sfx = CHR ''-'' \<and> tl sfx \<noteq> [] \<and> list_all is_digit (tl sfx) then n
              else uuid))"

text \<open>Video path: \<^verbatim>\<open>video.uuid.replace(/^seg-/, '')\<close>.\<close>

definition video_segmentId :: "string \<Rightarrow> string" where
  "video_segmentId uuid = (case after_seg uuid of None \<Rightarrow> uuid | Some rest \<Rightarrow> rest)"

subsection \<open>Raw records and the processed view\<close>

record raw_segment =
  rs_segmentId :: "string option"
  rs_id :: string
  rs_visual :: "jsstring option"
  rs_narration :: "jsstring option"
  rs_animation :: "jsstring option"

record flow_segment =
  seg_id :: string
  seg_visual :: jsstring
  seg_narration :: jsstring
  seg_animation :: jsstring

record raw_image =
  ri_id :: string
  ri_success :: bool
  ri_s3Key :: "string option"
  ri_uuid :: "string option"
  ri_visualPrompt :: "jsstring option"
  ri_artStyle :: "string option"
  ri_isPrimary :: "bool option"

record flow_image =
  fi_id :: string
  fi_url :: string
  fi_visualPrompt :: "jsstring option"
  fi_artStyle :: "string option"
  fi_s3Key :: string
  fi_uuid :: string
  fi_isPrimary :: bool

record image_detail =
  idt_id :: string
  idt_visualPrompt :: "jsstring option"
  idt_artStyle :: "string option"
  idt_s3Key :: string
  idt_allImages :: "flow_image list"

record video_file =
  vf_s3Key :: "string option"

record raw_video =
  rv_id :: string
  rv_success :: bool
  rv_uuid :: "string option"
  rv_videoFiles :: "video_file list option"
  rv_artStyle :: "string option"
  rv_imageS3Key :: "string option"

record video_detail =
  vd_id :: string
  vd_artStyle :: "string option"
  vd_imageS3Key :: "string option"

record allProjectData =
  apd_segments :: "raw_segment list"
  apd_images :: "raw_image option list"
  apd_videos :: "raw_video option list"

record flow_data =
  fd_segments :: "flow_segment list"
  fd_images :: "string \<rightharpoonup> string"
  fd_videos :: "string \<rightharpoonup> string"
  fd_imageDetails :: "string \<rightharpoonup> image_detail"
  fd_videoDetails :: "string \<rightharpoonup> video_detail"

text \<open>Segment path: \<^verbatim>\<open>id: seg.segmentId || seg.id\<close>, and the texts default to \<open>''\<close>.\<close>

definition process_segment :: "raw_segment \<Rightarrow> flow_segment" where
  "process_segment seg =
     \<lparr>seg_id = js_or (rs_segmentId seg) (rs_id seg),
      seg_visual = js_or (rs_visual seg) [],
      seg_narration = js_or (rs_narration seg) [],
      seg_animation = js_or (rs_animation seg) []\<rparr>"

text \<open>
  The primary flag: \<^verbatim>\<open>typeof img.isPrimary === 'boolean' ? img.isPrimary : !img.uuid.includes('-')\<close>.
\<close>

definition primary_flag :: "bool option \<Rightarrow> string \<Rightarrow> bool" where
  "primary_flag flag uuid = (case flag of Some b \<Rightarrow> b | None \<Rightarrow> CHR ''-'' \<notin> set uuid)"

definition mk_image :: "raw_image \<Rightarrow> string \<Rightarrow> string \<Rightarrow> flow_image" where
  "mk_image img key uuid =
     \<lparr>fi_id = ri_id img,
      fi_url = cloudfront key,
      fi_visualPrompt = ri_visualPrompt img,
      fi_artStyle = ri_artStyle img,
      fi_s3Key = key,
      fi_uuid = uuid,
      fi_isPrimary = primary_flag (ri_isPrimary img) uuid\<rparr>"

text \<open>
  One round of \<^verbatim>\<open>allProjectData.images.forEach\<close>: records that are null, report no
  success, or lack a storage key or a uuid are skipped; the others are pushed at the end
  of their segment's list. \<open>allImagesBySegment\<close> is an association list in insertion
  order of its keys.
\<close>

definition push_image ::
  "raw_image option \<Rightarrow> (string \<times> flow_image list) list \<Rightarrow> (string \<times> flow_image list) list" where
  "push_image img acc =
     (case img of
        None \<Rightarrow> acc
      | Some i \<Rightarrow>
          (case (ri_s3Key i, ri_uuid i) of
             (Some key, Some uuid) \<Rightarrow>
               if ri_success i \<and> key \<noteq> [] \<and> uuid \<noteq> [] then
                 (let segmentId = image_segmentId uuid;
                      cur = (case map_of acc segmentId of None \<Rightarrow> [] | Some l \<Rightarrow> l)
                  in AList.update segmentId (cur @ [mk_image i key uuid]) acc)
               else acc
           | _ \<Rightarrow> acc))"

definition allImagesBySegment :: "raw_image option list \<Rightarrow> (string \<times> flow_image list) list" where
  "allImagesBySegment imgs = fold push_image imgs []"

text \<open>
  The comparator handed to \<^verbatim>\<open>segmentImages.sort\<close>, and the sort itself.
  \<^verbatim>\<open>Array.prototype.sort\<close> is stable (ECMAScript 2019), and with a consistent
  comparator its result is the one that a stable insertion sort computes.
\<close>

definition primary_cmp :: "flow_image \<Rightarrow> flow_image \<Rightarrow> int" where
  "primary_cmp a b =
     (if fi_isPrimary a \<and> \<not> fi_isPrimary b then - 1
      else if \<not> fi_isPrimary a \<and> fi_isPrimary b then 1
      else 0)"

fun insert_by :: "('a \<Rightarrow> 'a \<Rightarrow> int) \<Rightarrow> 'a \<Rightarrow> 'a list \<Rightarrow> 'a list" where
  "insert_by cmp x [] = [x]"
| "insert_by cmp x (y # ys) = (if cmp x y \<le> 0 then x # y # ys else y # insert_by cmp x ys)"

definition js_sort :: "('a \<Rightarrow> 'a \<Rightarrow> int) \<Rightarrow> 'a list \<Rightarrow> 'a list" where
  "js_sort cmp xs = foldr (insert_by cmp) xs []"

text \<open>
  One round of \<^verbatim>\<open>Object.keys(allImagesBySegment).forEach\<close>: sort the segment's list
  primary-first and surface its first entry.
\<close>

definition primaryImage :: "flow_image list \<Rightarrow> flow_image option" where
  "primaryImage segmentImages =
     (if length segmentImages > 0 then Some (hd (js_sort primary_cmp segmentImages)) else None)"

definition surface_primary ::
  "(string \<times> flow_image list) list \<Rightarrow> string \<Rightarrow>
   (string \<rightharpoonup> string) \<times> (string \<rightharpoonup> image_detail) \<Rightarrow>
   (string \<rightharpoonup> string) \<times> (string \<rightharpoonup> image_detail)" where
  "surface_primary al segmentId acc =
     (case map_of al segmentId of
        None \<Rightarrow> acc
      | Some segmentImages \<Rightarrow>
          (case primaryImage segmentImages of
             None \<Rightarrow> acc
           | Some p \<Rightarrow>
               ((fst acc)(segmentId \<mapsto> fi_url p),
                (snd acc)(segmentId \<mapsto>
                  \<lparr>idt_id = fi_id p,
                   idt_visualPrompt = fi_visualPrompt p,
                   idt_artStyle = fi_artStyle p,
                   idt_s3Key = fi_s3Key p,
                   idt_allImages = js_sort primary_cmp segmentImages\<rparr>))))"

text \<open>
  One round of \<^verbatim>\<open>allProjectData.videos.forEach\<close>: a record with a uuid and a first
  file that has a storage key is stored under its uuid without the \<open>seg-\<close> prefix.
\<close>

definition video_entry ::
  "raw_video option \<Rightarrow> (string \<rightharpoonup> string) \<times> (string \<rightharpoonup> video_detail) \<Rightarrow>
   (string \<rightharpoonup> string) \<times> (string \<rightharpoonup> video_detail)" where
  "video_entry video acc =
     (case video of
        None \<Rightarrow> acc
      | Some v \<Rightarrow>
          (case (rv_uuid v, rv_videoFiles v) of
             (Some uuid, Some (f # fs)) \<Rightarrow>
               if rv_success v \<and> uuid \<noteq> [] \<and> truthy (vf_s3Key f) then
                 (let segmentId = video_segmentId uuid
                  in ((fst acc)(segmentId \<mapsto> cloudfront (js_or (vf_s3Key f) [])),
                      (snd acc)(segmentId \<mapsto>
                        \<lparr>vd_id = rv_id v, vd_artStyle = rv_artStyle v,
                         vd_imageS3Key =
                           (if truthy (rv_imageS3Key v) then rv_imageS3Key v else None)\<rparr>)))
               else acc
           | _ \<Rightarrow> acc))"

text \<open>The videos fetched from the server, before the preview videos are added.\<close>

definition canonical_videos ::
  "allProjectData \<Rightarrow> (string \<rightharpoonup> string) \<times> (string \<rightharpoonup> video_detail)" where
  "canonical_videos apd = fold video_entry (apd_videos apd) (Map.empty, Map.empty)"

text \<open>
  \<^verbatim>\<open>temporaryVideos.forEach((videoUrl, key) => { videos[key] = videoUrl; })\<close>:
  \<open>temporaryVideos\<close> is a JavaScript \<open>Map\<close>, given by its entries in insertion order.
\<close>

definition add_temporary ::
  "(string \<times> string) list \<Rightarrow> (string \<rightharpoonup> string) \<Rightarrow> (string \<rightharpoonup> string)" where
  "add_temporary temporaryVideos videos =
     fold (\<lambda>(key, videoUrl) vs. vs(key \<mapsto> videoUrl)) temporaryVideos videos"

definition flowData :: "allProjectData \<Rightarrow> (string \<times> string) list \<Rightarrow> flow_data" where
  "flowData apd temporaryVideos =
     (let segments = map process_segment (apd_segments apd);
          bySegment = allImagesBySegment (apd_images apd);
          imgs = fold (surface_primary bySegment) (map fst bySegment) (Map.empty, Map.empty);
          vids = canonical_videos apd
      in \<lparr>fd_segments = segments,
          fd_images = fst imgs,
          fd_videos = add_temporary temporaryVideos (fst vids),
          fd_imageDetails = snd imgs,
          fd_videoDetails = snd vids\<rparr>)"

section \<open>FlowWidget: the graph projection \<open>createFlowElements\<close>\<close>

datatype node_type = segmentNode | addImageNode | imageNode | videoNode | addVideoNode

text \<open>
  The \<open>data\<close> payload of a node, by node type: the segment and its status; the segment
  id and \<open>hasExistingImages\<close>; segment id, image URL, image id and primary flag; segment
  id, image id, video URL and video id; segment id and image id. The \<open>segmentData\<close>
  texts and styles handed on to the node components are left out, and so are the
  constant handles and styles of the edges.
\<close>

datatype node_data =
    SegmentData flow_segment string
  | AddImageData string bool
  | ImageData string string string bool
  | VideoData string string string "string option"
  | AddVideoData string string

record flow_node =
  node_id :: string
  node_type :: node_type
  node_x :: int
  node_y :: int
  node_data :: node_data

record flow_edge =
  edge_id :: string
  edge_source :: string
  edge_target :: string

definition nodeSpacing :: int where "nodeSpacing = 220"
definition rowSpacing :: int where "rowSpacing = 300"
definition startX :: int where "startX = 50"
definition startY :: int where "startY = 50"
definition segmentSpacing :: int where "segmentSpacing = 600"

definition mk_edge :: "string \<Rightarrow> string \<Rightarrow> flow_edge" where
  "mk_edge src tgt = \<lparr>edge_id = src @ ''-to-'' @ tgt, edge_source = src, edge_target = tgt\<rparr>"

text \<open>\<^verbatim>\<open>flowData.videos[`${segment.id}-${image.id}`] || flowData.videos[segment.id]\<close>.\<close>

definition imageVideoUrl :: "flow_data \<Rightarrow> string \<Rightarrow> string \<Rightarrow> string option" where
  "imageVideoUrl fd segmentId imageId =
     (if truthy (fd_videos fd (segmentId @ ''-'' @ imageId))
      then fd_videos fd (segmentId @ ''-'' @ imageId)
      else fd_videos fd segmentId)"

definition imageVideoId :: "flow_data \<Rightarrow> string \<Rightarrow> string \<Rightarrow> string option" where
  "imageVideoId fd segmentId imageId =
     (if truthy (map_option vd_id (fd_videoDetails fd (segmentId @ ''-'' @ imageId)))
      then map_option vd_id (fd_videoDetails fd (segmentId @ ''-'' @ imageId))
      else map_option vd_id (fd_videoDetails fd segmentId))"

text \<open>
  The body of \<^verbatim>\<open>imageDetail.allImages.forEach((image, imageIndex) => ...)\<close>: the nodes and
  edges pushed for one image row.
\<close>

definition image_row ::
  "flow_data \<Rightarrow> flow_segment \<Rightarrow> int \<Rightarrow> int \<Rightarrow> nat \<Rightarrow> flow_image \<Rightarrow>
   flow_node list \<times> flow_edge list" where
  "image_row fd segment addImageX y imageIndex img =
     (let imageX = addImageX + nodeSpacing;
          imageY = y + int imageIndex * rowSpacing;
          sid = seg_id segment;
          iid = fi_id img;
          imageNodeId = ''image-'' @ sid @ ''-'' @ iid;
          imgNode = \<lparr>node_id = imageNodeId, node_type = imageNode, node_x = imageX,
                     node_y = imageY,
                     node_data = ImageData sid (fi_url img) iid (fi_isPrimary img)\<rparr>;
          imgEdge = mk_edge (''add-image-'' @ sid) imageNodeId;
          url = imageVideoUrl fd sid iid;
          videoX = imageX + nodeSpacing
      in if truthy url then
           ([imgNode,
             \<lparr>node_id = ''video-'' @ sid @ ''-'' @ iid, node_type = videoNode, node_x = videoX,
              node_y = imageY,
              node_data = VideoData sid iid (js_or url []) (imageVideoId fd sid iid)\<rparr>],
            [imgEdge, mk_edge imageNodeId (''video-'' @ sid @ ''-'' @ iid)])
         else
           ([imgNode,
             \<lparr>node_id = ''add-video-'' @ sid @ ''-'' @ iid, node_type = addVideoNode,
              node_x = videoX, node_y = imageY, node_data = AddVideoData sid iid\<rparr>],
            [imgEdge, mk_edge imageNodeId (''add-video-'' @ sid @ ''-'' @ iid)]))"

text \<open>Pushing the elements of one round onto \<open>newNodes\<close> and \<open>newEdges\<close>.\<close>

definition push_elements ::
  "flow_node list \<times> flow_edge list \<Rightarrow> flow_node list \<times> flow_edge list \<Rightarrow>
   flow_node list \<times> flow_edge list" where
  "push_elements new acc = (fst acc @ fst new, snd acc @ snd new)"

text \<open>A \<open>forEach\<close> with the element's index: the list paired with its indices.\<close>

definition indexed :: "'a list \<Rightarrow> (nat \<times> 'a) list" where
  "indexed xs = zip [0..<length xs] xs"

text \<open>
  The image rows of a segment, pushed only when the segment has a primary image URL and
  image details.
\<close>

definition segment_rows ::
  "flow_data \<Rightarrow> flow_segment \<Rightarrow> (nat \<times> flow_image) list" where
  "segment_rows fd segment =
     (case fd_imageDetails fd (seg_id segment) of
        None \<Rightarrow> []
      | Some imageDetail \<Rightarrow>
          if truthy (fd_images fd (seg_id segment)) then indexed (idt_allImages imageDetail)
          else [])"

definition segment_status :: "flow_data \<Rightarrow> string \<Rightarrow> string" where
  "segment_status fd sid =
     (if truthy (fd_videos fd sid) then ''completed''
      else if truthy (fd_images fd sid) then ''generating''
      else ''pending'')"

text \<open>The body of \<^verbatim>\<open>flowData.segments.forEach((segment, segIndex) => ...)\<close>.\<close>

definition segment_elements ::
  "flow_data \<Rightarrow> nat \<times> flow_segment \<Rightarrow> flow_node list \<times> flow_edge list \<Rightarrow>
   flow_node list \<times> flow_edge list" where
  "segment_elements fd entry acc =
     (let segIndex = fst entry; segment = snd entry;
          sid = seg_id segment;
          x = startX;
          y = startY + int segIndex * segmentSpacing;
          addImageX = x + nodeSpacing;
          fixed =
            ([\<lparr>node_id = ''segment-'' @ sid, node_type = segmentNode, node_x = x, node_y = y,
               node_data = SegmentData segment (segment_status fd sid)\<rparr>,
              \<lparr>node_id = ''add-image-'' @ sid, node_type = addImageNode, node_x = addImageX,
               node_y = y, node_data = AddImageData sid (truthy (fd_images fd sid))\<rparr>],
             [mk_edge (''segment-'' @ sid) (''add-image-'' @ sid)])
      in fold (\<lambda>(imageIndex, img). push_elements (image_row fd segment addImageX y imageIndex img))
           (segment_rows fd segment) (push_elements fixed acc))"

definition createFlowElements :: "flow_data \<Rightarrow> flow_node list \<times> flow_edge list" where
  "createFlowElements fd =
     (if length (fd_segments fd) > 0
      then fold (segment_elements fd) (indexed (fd_segments fd)) ([], [])
      else ([], []))"

section \<open>Example inputs\<close>

text \<open>
  A project with one server video stored under the uuid \<open>seg-2-7\<close>, and a preview video
  generated for image \<open>7\<close> of segment \<open>2\<close>.
\<close>

definition ex_apd :: allProjectData where
  "ex_apd =
     \<lparr>apd_segments = [], apd_images = [],
      apd_videos =
        [Some \<lparr>rv_id = ''v1'', rv_success = True, rv_uuid = Some ''seg-2-7'',
               rv_videoFiles = Some [\<lparr>vf_s3Key = Some ''a.mp4''\<rparr>],
               rv_artStyle = None, rv_imageS3Key = None\<rparr>]\<rparr>"

definition ex_preview :: "(string \<times> string) list" where
  "ex_preview = [(''2-7'', cloudfront ''tmp.mp4'')]"

definition ex_raw_segment :: raw_segment where
  "ex_raw_segment =
     \<lparr>rs_segmentId = None, rs_id = ''seg-2'', rs_visual = None, rs_narration = None,
      rs_animation = None\<rparr>"

text \<open>
  What \<open>flowData\<close> surfaces for a segment key with the image list \<open>xs\<close>: the URL and id
  of the first image of the sorted list, and the sorted list itself.
\<close>

definition surfaced :: "string \<Rightarrow> flow_image list \<Rightarrow>
  (string \<rightharpoonup> string) \<times> (string \<rightharpoonup> image_detail) \<Rightarrow> bool" where
  "surfaced k xs acc \<longleftrightarrow>
     fst acc k = Some (fi_url (hd (js_sort primary_cmp xs))) \<and>
     map_option idt_id (snd acc k) = Some (fi_id (hd (js_sort primary_cmp xs))) \<and>
     map_option idt_allImages (snd acc k) = Some (js_sort primary_cmp xs)"

text \<open>
  Two images of segment \<open>2\<close>: a later one without a server flag, then the original one
  flagged primary by the server.
\<close>

definition ex_raw_a :: raw_image where
  "ex_raw_a =
     \<lparr>ri_id = ''11'', ri_success = True, ri_s3Key = Some ''a.png'', ri_uuid = Some ''seg-2-1700'',
      ri_visualPrompt = None, ri_artStyle = None, ri_isPrimary = None\<rparr>"

definition ex_raw_b :: raw_image where
  "ex_raw_b =
     \<lparr>ri_id = ''12'', ri_success = True, ri_s3Key = Some ''b.png'', ri_uuid = Some ''seg-2'',
      ri_visualPrompt = None, ri_artStyle = None, ri_isPrimary = Some True\<rparr>"

definition ex_img_apd :: allProjectData where
  "ex_img_apd = \<lparr>apd_segments = [], apd_images = [Some ex_raw_a, Some ex_raw_b], apd_videos = []\<rparr>"

definition ex_segmentImages :: "flow_image list" where
  "ex_segmentImages = [mk_image ex_raw_a ''a.png'' ''seg-2-1700'', mk_image ex_raw_b ''b.png'' ''seg-2'']"

text \<open>
  The elements pushed for one segment, and for one image row of a segment at the
  position the segment's loop body gives it.
\<close>

definition segment_graph :: "flow_data \<Rightarrow> nat \<times> flow_segment \<Rightarrow> flow_node list \<times> flow_edge list" where
  "segment_graph fd entry = segment_elements fd entry ([], [])"

definition row_of :: "flow_data \<Rightarrow> nat \<times> flow_segment \<Rightarrow> nat \<times> flow_image \<Rightarrow> flow_node list \<times> flow_edge list" where
  "row_of fd entry r =
     image_row fd (snd entry) (startX + nodeSpacing) (startY + int (fst entry) * segmentSpacing)
       (fst r) (snd r)"

text \<open>Every edge of a graph starts and ends at one of its nodes.\<close>

definition closed :: "flow_node list \<times> flow_edge list \<Rightarrow> bool" where
  "closed g \<longleftrightarrow>
     (\<forall>e\<in>set (snd g). edge_source e \<in> node_id ` set (fst g) \<and> edge_target e \<in> node_id ` set (fst g))"

text \<open>A reconciled view with one segment that has one image and no video.\<close>

definition ex_seg :: flow_segment where
  "ex_seg = \<lparr>seg_id = ''2'', seg_visual = [], seg_narration = [], seg_animation = []\<rparr>"

definition ex_img :: flow_image where
  "ex_img = mk_image ex_raw_b ''b.png'' ''seg-2''"

definition ex_fd :: flow_data where
  "ex_fd =
     \<lparr>fd_segments = [ex_seg],
      fd_images = [''2'' \<mapsto> cloudfront ''b.png''],
      fd_videos = Map.empty,
      fd_imageDetails =
        [''2'' \<mapsto> \<lparr>idt_id = ''12'', idt_visualPrompt = None, idt_artStyle = None,
                   idt_s3Key = ''b.png'', idt_allImages = [ex_img]\<rparr>],
      fd_videoDetails = Map.empty\<rparr>"

section \<open>services/chat.js: the generation facade\<close>

text \<open>
  The character classes of the sanitiser's regular expressions, on UTF-16 code units
  (the expressions have no \<open>u\<close> flag): \<^verbatim>\<open>[ -~]\<close>, \<^verbatim>\<open>\n\<close> and \<^verbatim>\<open>\s\<close>.
  \<^verbatim>\<open>String.prototype.trim\<close> strips the code units of \<^verbatim>\<open>\s\<close>.
\<close>

definition printable :: "16 word \<Rightarrow> bool" where
  "printable c = (0x20 \<le> c \<and> c \<le> 0x7E)"

definition newline :: "16 word \<Rightarrow> bool" where
  "newline c = (c = 0x0A)"

definition js_space :: "16 word \<Rightarrow> bool" where
  "js_space c =
     (c = 0x09 \<or> c = 0x0A \<or> c = 0x0B \<or> c = 0x0C \<or> c = 0x0D \<or> c = 0x20 \<or> c = 0xA0 \<or>
      c = 0x1680 \<or> (0x2000 \<le> c \<and> c \<le> 0x200A) \<or> c = 0x2028 \<or> c = 0x2029 \<or>
      c = 0x202F \<or> c = 0x205F \<or> c = 0x3000 \<or> c = 0xFEFF)"

text \<open>
  \<^verbatim>\<open>s.replace(/C+/g, " ")\<close> for a character class \<open>C\<close>: every maximal run of
  \<open>C\<close> becomes one space. The flag says that the previous code unit was in \<open>C\<close>.
\<close>

fun replace_runs :: "(16 word \<Rightarrow> bool) \<Rightarrow> bool \<Rightarrow> jsstring \<Rightarrow> jsstring" where
  "replace_runs p inrun [] = []"
| "replace_runs p inrun (c # cs) =
     (if p c then (if inrun then replace_runs p True cs else 0x20 # replace_runs p True cs)
      else c # replace_runs p False cs)"

definition js_trim :: "jsstring \<Rightarrow> jsstring" where
  "js_trim s = rev (dropWhile js_space (rev (dropWhile js_space s)))"

definition MAX_PROMPT_LENGTH :: nat where
  "MAX_PROMPT_LENGTH = 800"

text \<open>The backend's limit, as the comment at \<open>MAX_PROMPT_LENGTH\<close> gives it.\<close>

definition BACKEND_PROMPT_LIMIT :: nat where
  "BACKEND_PROMPT_LIMIT = 950"

definition sanitisedPrompt :: "jsstring option \<Rightarrow> jsstring" where
  "sanitisedPrompt visual_prompt =
     js_trim (replace_runs js_space False (replace_runs newline False
       (filter printable (js_or visual_prompt []))))"

definition safePrompt :: "jsstring option \<Rightarrow> jsstring" where
  "safePrompt visual_prompt = take MAX_PROMPT_LENGTH (sanitisedPrompt visual_prompt)"

text \<open>A string literal of the source as code units.\<close>

definition literal :: "string \<Rightarrow> jsstring" where
  "literal s = map of_char s"

text \<open>\<^verbatim>\<open>art_style && art_style.trim() ? art_style.trim() : "realistic"\<close>.\<close>

definition art_style_or_realistic :: "jsstring option \<Rightarrow> jsstring" where
  "art_style_or_realistic art_style =
     (case art_style of
        None \<Rightarrow> literal ''realistic''
      | Some a \<Rightarrow> if a \<noteq> [] \<and> js_trim a \<noteq> [] then js_trim a else literal ''realistic'')"

record image_request =
  ir_visual_prompt :: "jsstring option"
  ir_art_style :: "jsstring option"
  ir_uuid :: string
  ir_project_id :: "string option"
  ir_model :: "string option"

record image_payload =
  ip_model :: string
  ip_gen_type :: string
  ip_uuid :: string
  ip_visual_prompt :: jsstring
  ip_art_style :: jsstring
  ip_projectId :: "string option"

record video_request =
  vr_animation_prompt :: "jsstring option"
  vr_art_style :: "jsstring option"
  vr_image_s3_key :: "string option"
  vr_uuid :: string
  vr_project_id :: "string option"
  vr_model :: "string option"

record video_payload =
  vp_model :: string
  vp_gen_type :: string
  vp_uuid :: string
  vp_animation_prompt :: "jsstring option"
  vp_image_s3_key :: "string option"
  vp_art_style :: jsstring
  vp_projectId :: "string option"

text \<open>The payload that \<open>chatApi.generateImage\<close> posts to \<open>/chat\<close>.\<close>

definition generateImage_payload :: "image_request \<Rightarrow> image_payload" where
  "generateImage_payload req =
     \<lparr>ip_model = (case ir_model req of None \<Rightarrow> ''recraft-v3'' | Some m \<Rightarrow> m),
      ip_gen_type = ''image'',
      ip_uuid = ir_uuid req,
      ip_visual_prompt = safePrompt (ir_visual_prompt req),
      ip_art_style = art_style_or_realistic (ir_art_style req),
      ip_projectId = ir_project_id req\<rparr>"

text \<open>The payload that \<open>chatApi.generateVideo\<close> posts to \<open>/chat\<close>.\<close>

definition generateVideo_payload :: "video_request \<Rightarrow> video_payload" where
  "generateVideo_payload req =
     \<lparr>vp_model = (case vr_model req of None \<Rightarrow> ''kling-v2.1-master'' | Some m \<Rightarrow> m),
      vp_gen_type = ''video'',
      vp_uuid = vr_uuid req,
      vp_animation_prompt = vr_animation_prompt req,
      vp_image_s3_key = vr_image_s3_key req,
      vp_art_style = art_style_or_realistic (vr_art_style req),
      vp_projectId = vr_project_id req\<rparr>"

text \<open>No two neighbours of a string are both in the class \<open>p\<close>.\<close>

fun no_adjacent :: "('a \<Rightarrow> bool) \<Rightarrow> 'a list \<Rightarrow> bool" where
  "no_adjacent p [] = True"
| "no_adjacent p [x] = True"
| "no_adjacent p (x # y # zs) = (\<not> (p x \<and> p y) \<and> no_adjacent p (y # zs))"

text \<open>An animation prompt with a line break: \<open>a\<close>, newline, \<open>b\<close>.\<close>

definition ex_video_request :: video_request where
  "ex_video_request =
     \<lparr>vr_animation_prompt = Some [0x61, 0x0A, 0x62], vr_art_style = None,
      vr_image_s3_key = Some ''b.png'', vr_uuid = ''seg-2'', vr_project_id = Some ''p1'',
      vr_model = None\<rparr>"

definition ex_image_request :: image_request where
  "ex_image_request =
     \<lparr>ir_visual_prompt = Some [0x20, 0x61, 0x0A, 0x20, 0x20, 0xE9, 0x62, 0x20],
      ir_art_style = None, ir_uuid = ''seg-2'', ir_project_id = Some ''p1'', ir_model = None\<rparr>"

text \<open>A visual prompt of 801 code units: 799 times \<open>a\<close>, a space, and \<open>b\<close>.\<close>

definition ex_long_prompt :: jsstring where
  "ex_long_prompt = replicate 799 0x61 @ [0x20, 0x62]"

section \<open>FlowWidget: fetching the project data\<close>

text \<open>How an awaited call settles: it rejects (throws) with a message, or resolves.\<close>

datatype 'a settled = Rejected string | Resolved 'a

definition is_rejected :: "'a settled \<Rightarrow> bool" where
  "is_rejected r = (case r of Rejected _ \<Rightarrow> True | Resolved _ \<Rightarrow> False)"

text \<open>A response of the project API, \<^verbatim>\<open>{ success, data }\<close>.\<close>

record 'a api_response =
  resp_success :: bool
  resp_data :: "'a list option"

record segmentation =
  sg_segments :: "raw_segment list option"

datatype gen_call = GenerateImage string | GenerateVideo string

text \<open>
  The state of the \<open>FlowWidget\<close> component. \<open>fw_projectId\<close> is the id of the project
  stored under \<open>project-store-selectedProject\<close> in \<open>localStorage\<close>, \<open>None\<close> when nothing
  is stored or it does not parse. \<open>fw_calls\<close> records the calls of \<open>chatApi.generateImage\<close>
  and \<open>chatApi.generateVideo\<close> that were launched, by the uuid they were given.
\<close>

record flow_state =
  fw_isAuthenticated :: bool
  fw_projectId :: "string option"
  fw_loading :: bool
  fw_error :: "string option"
  fw_allProjectData :: allProjectData
  fw_projectData :: "raw_segment list option"
  regeneratingImages :: "string set"
  regeneratingVideos :: "string set"
  creatingImages :: "string set"
  creatingVideos :: "string set"
  fw_temporaryVideos :: "(string \<times> string) list"
  flowMessages :: "string list"
  fw_calls :: "gen_call list"

definition no_project :: string where
  "no_project = ''No project selected. Please select a project first.''"

text \<open>The segments of the first segmentation, when the response reports success.\<close>

definition first_segments :: "segmentation api_response option \<Rightarrow> raw_segment list" where
  "first_segments segmentationsData =
     (case segmentationsData of
        None \<Rightarrow> []
      | Some r \<Rightarrow>
          (case resp_data r of
             Some (firstSegmentation # rest) \<Rightarrow>
               if resp_success r then
                 (case sg_segments firstSegmentation of None \<Rightarrow> [] | Some segs \<Rightarrow> segs)
               else []
           | _ \<Rightarrow> []))"

text \<open>\<^verbatim>\<open>imagesData?.data || []\<close>.\<close>

definition data_or_empty :: "'a api_response option \<Rightarrow> 'a list" where
  "data_or_empty r =
     (case r of None \<Rightarrow> [] | Some x \<Rightarrow> (case resp_data x of None \<Rightarrow> [] | Some d \<Rightarrow> d))"

text \<open>
  \<open>refreshProjectData\<close>, given how the three fetches of its \<^verbatim>\<open>Promise.all\<close> settle.
  \<^verbatim>\<open>Promise.all\<close> rejects when one of them rejects, and the \<open>catch\<close> block runs.
\<close>

definition refreshProjectData ::
  "segmentation api_response option settled \<Rightarrow> raw_image option api_response option settled \<Rightarrow>
   raw_video option api_response option settled \<Rightarrow> flow_state \<Rightarrow> flow_state" where
  "refreshProjectData segF imgF vidF s =
     (if \<not> fw_isAuthenticated s then s
      else if \<not> truthy (fw_projectId s) then s\<lparr>fw_error := Some no_project\<rparr>
      else
        (case (segF, imgF, vidF) of
           (Resolved segmentationsData, Resolved imagesData, Resolved videosData) \<Rightarrow>
             s\<lparr>fw_allProjectData :=
                  \<lparr>apd_segments = first_segments segmentationsData,
                   apd_images = data_or_empty imagesData,
                   apd_videos = data_or_empty videosData\<rparr>,
               fw_projectData := Some (first_segments segmentationsData),
               fw_loading := False\<rparr>
         | _ \<Rightarrow> s\<lparr>fw_error := Some ''Failed to fetch project data'', fw_loading := False\<rparr>))"

section \<open>FlowWidget: the per-entity generation handlers\<close>

text \<open>
  Each handler is an async function. Its \<open>begin\<close> part runs from the call to the first
  \<open>await\<close>: the guards, the entry into the in-flight set and the launch of the generation
  call. Its \<open>settle\<close> part runs when the awaited call has settled: the \<open>try\<close> block's
  rest or the \<open>catch\<close> block, and the \<open>finally\<close> block that removes the key from the
  in-flight set.
\<close>

record segment_data =
  sd_id :: string
  sd_visual :: "jsstring option"
  sd_animation :: "jsstring option"
  sd_artStyle :: "string option"
  sd_s3Key :: "string option"
  sd_imageS3Key :: "string option"

definition handleRegenerateImage_begin :: "string \<Rightarrow> segment_data \<Rightarrow> flow_state \<Rightarrow> flow_state" where
  "handleRegenerateImage_begin imageId segmentData s =
     (if \<not> fw_isAuthenticated s \<or> imageId \<in> regeneratingImages s then s
      else if \<not> truthy (fw_projectId s) then s\<lparr>fw_error := Some no_project\<rparr>
      else if truthy (sd_s3Key segmentData)
        then s\<lparr>regeneratingImages := insert imageId (regeneratingImages s)\<rparr>
        else s\<lparr>regeneratingImages := insert imageId (regeneratingImages s),
               fw_calls := fw_calls s @ [GenerateImage (''seg-'' @ sd_id segmentData)]\<rparr>)"

definition handleRegenerateImage_settle ::
  "string \<Rightarrow> segment_data \<Rightarrow> string option settled \<Rightarrow>
   segmentation api_response option settled \<Rightarrow> raw_image option api_response option settled \<Rightarrow>
   raw_video option api_response option settled \<Rightarrow> flow_state \<Rightarrow> flow_state" where
  "handleRegenerateImage_settle imageId segmentData genResponse segF imgF vidF s =
     (let s1 =
        (case (if truthy (sd_s3Key segmentData) then Resolved (sd_s3Key segmentData)
               else genResponse) of
           Resolved _ \<Rightarrow>
             (let r = refreshProjectData segF imgF vidF s
              in r\<lparr>flowMessages := flowMessages r @
                    [''Image for scene '' @ sd_id segmentData @ '' regenerated successfully!'']\<rparr>)
         | Rejected msg \<Rightarrow> s\<lparr>fw_error := Some (''Failed to regenerate image: '' @ msg)\<rparr>)
      in s1\<lparr>regeneratingImages := regeneratingImages s1 - {imageId}\<rparr>)"

definition handleRegenerateVideo_begin :: "string \<Rightarrow> segment_data \<Rightarrow> flow_state \<Rightarrow> flow_state" where
  "handleRegenerateVideo_begin videoId segmentData s =
     (if \<not> fw_isAuthenticated s \<or> videoId \<in> regeneratingVideos s then s
      else if \<not> truthy (fw_projectId s) then s\<lparr>fw_error := Some no_project\<rparr>
      else s\<lparr>regeneratingVideos := insert videoId (regeneratingVideos s),
             fw_calls := fw_calls s @ [GenerateVideo (''seg-'' @ sd_id segmentData)]\<rparr>)"

definition handleRegenerateVideo_settle ::
  "string \<Rightarrow> segment_data \<Rightarrow> string option settled \<Rightarrow>
   segmentation api_response option settled \<Rightarrow> raw_image option api_response option settled \<Rightarrow>
   raw_video option api_response option settled \<Rightarrow> flow_state \<Rightarrow> flow_state" where
  "handleRegenerateVideo_settle videoId segmentData genResponse segF imgF vidF s =
     (let s1 =
        (case genResponse of
           Resolved _ \<Rightarrow>
             (let r = refreshProjectData segF imgF vidF s
              in r\<lparr>flowMessages := flowMessages r @
                    [''Video for scene '' @ sd_id segmentData @
                     '' regenerated, overwritten, and metadata updated successfully!'']\<rparr>)
         | Rejected msg \<Rightarrow> s\<lparr>fw_error := Some (''Failed to regenerate video: '' @ msg)\<rparr>)
      in s1\<lparr>regeneratingVideos := regeneratingVideos s1 - {videoId}\<rparr>)"

text \<open>
  \<open>handleCreateNewImage\<close>: \<open>timestamp\<close> is the decimal text of \<^verbatim>\<open>Date.now()\<close>. The
  handler enters \<open>segmentId\<close> into \<open>creatingImages\<close>, and its only guard is the
  authentication test.
\<close>

definition handleCreateNewImage_begin ::
  "string \<Rightarrow> segment_data \<Rightarrow> string \<Rightarrow> flow_state \<Rightarrow> flow_state" where
  "handleCreateNewImage_begin segmentId segmentData timestamp s =
     (if \<not> fw_isAuthenticated s then s
      else if \<not> truthy (fw_projectId s) then s\<lparr>fw_error := Some no_project\<rparr>
      else s\<lparr>creatingImages := insert segmentId (creatingImages s),
             fw_calls := fw_calls s @ [GenerateImage (''seg-'' @ segmentId @ ''-'' @ timestamp)]\<rparr>)"

definition handleCreateNewImage_settle ::
  "string \<Rightarrow> string option settled \<Rightarrow>
   segmentation api_response option settled \<Rightarrow> raw_image option api_response option settled \<Rightarrow>
   raw_video option api_response option settled \<Rightarrow> flow_state \<Rightarrow> flow_state" where
  "handleCreateNewImage_settle segmentId genResponse segF imgF vidF s =
     (let s1 =
        (case genResponse of
           Resolved _ \<Rightarrow>
             (let r = refreshProjectData segF imgF vidF s
              in r\<lparr>flowMessages := flowMessages r @
                    [''New image for scene '' @ segmentId @ '' created successfully!'']\<rparr>)
         | Rejected msg \<Rightarrow> s\<lparr>fw_error := Some (''Failed to create new image: '' @ msg)\<rparr>)
      in s1\<lparr>creatingImages := creatingImages s1 - {segmentId}\<rparr>)"

text \<open>
  \<open>handleCreateNewVideo\<close>: when the image is not among the segment's images the handler
  throws before any call is launched, and its \<open>catch\<close> and \<open>finally\<close> blocks run at once.
\<close>

definition find_image :: "flow_state \<Rightarrow> string \<Rightarrow> string \<Rightarrow> flow_image option" where
  "find_image s segmentId imageId =
     (case fd_imageDetails (flowData (fw_allProjectData s) (fw_temporaryVideos s)) segmentId of
        None \<Rightarrow> None
      | Some imageDetail \<Rightarrow> find (\<lambda>img. fi_id img = imageId) (idt_allImages imageDetail))"

definition handleCreateNewVideo_begin ::
  "string \<Rightarrow> string \<Rightarrow> segment_data \<Rightarrow> string \<Rightarrow> flow_state \<Rightarrow> flow_state" where
  "handleCreateNewVideo_begin segmentId imageId segmentData timestamp s =
     (if \<not> fw_isAuthenticated s \<or> imageId \<in> creatingVideos s then s
      else if \<not> truthy (fw_projectId s) then s\<lparr>fw_error := Some no_project\<rparr>
      else
        (case find_image s segmentId imageId of
           None \<Rightarrow> s\<lparr>fw_error := Some ''Failed to create new video: Image not found''\<rparr>
         | Some targetImage \<Rightarrow>
             s\<lparr>creatingVideos := insert imageId (creatingVideos s),
               fw_calls := fw_calls s @ [GenerateVideo (''seg-'' @ segmentId @ ''-'' @ timestamp)]\<rparr>))"

definition handleCreateNewVideo_settle ::
  "string \<Rightarrow> string \<Rightarrow> string option settled \<Rightarrow> flow_state \<Rightarrow> flow_state" where
  "handleCreateNewVideo_settle segmentId imageId genResponse s =
     (let s1 =
        (case genResponse of
           Resolved s3_key \<Rightarrow>
             if truthy s3_key then
               s\<lparr>fw_temporaryVideos :=
                    AList.update (segmentId @ ''-'' @ imageId) (cloudfront (js_or s3_key []))
                      (fw_temporaryVideos s),
                 flowMessages := flowMessages s @
                    [''New video for scene '' @ segmentId @
                     '' generated successfully! (Preview mode - not saved to database)'']\<rparr>
             else s
         | Rejected msg \<Rightarrow> s\<lparr>fw_error := Some (''Failed to create new video: '' @ msg)\<rparr>)
      in s1\<lparr>creatingVideos := creatingVideos s1 - {imageId}\<rparr>)"

text \<open>A signed-in widget with a selected project, nothing loaded and nothing in flight.\<close>

definition ex_flow_state :: flow_state where
  "ex_flow_state =
     \<lparr>fw_isAuthenticated = True, fw_projectId = Some ''p1'', fw_loading = False,
      fw_error = None,
      fw_allProjectData = \<lparr>apd_segments = [], apd_images = [], apd_videos = []\<rparr>,
      fw_projectData = None, regeneratingImages = {}, regeneratingVideos = {},
      creatingImages = {}, creatingVideos = {}, fw_temporaryVideos = [], flowMessages = [],
      fw_calls = []\<rparr>"

definition ex_segment_data :: segment_data where
  "ex_segment_data =
     \<lparr>sd_id = ''2'', sd_visual = Some [0x61], sd_animation = Some [0x62], sd_artStyle = None,
      sd_s3Key = None, sd_imageS3Key = None\<rparr>"

text \<open>
  The same widget with a view installed, and three fetches that all resolve: the
  segmentations answer with \<open>success = false\<close> and no data, the images and the videos
  answer with \<open>success = true\<close>.
\<close>

definition ex_loaded_state :: flow_state where
  "ex_loaded_state =
     ex_flow_state
       \<lparr>fw_allProjectData :=
          \<lparr>apd_segments = [ex_raw_segment], apd_images = [Some ex_raw_b], apd_videos = []\<rparr>\<rparr>"

definition ex_seg_response :: "segmentation api_response option settled" where
  "ex_seg_response = Resolved (Some \<lparr>resp_success = False, resp_data = None\<rparr>)"

definition ex_img_response :: "raw_image option api_response option settled" where
  "ex_img_response = Resolved (Some \<lparr>resp_success = True, resp_data = Some [Some ex_raw_a]\<rparr>)"

definition ex_vid_response :: "raw_video option api_response option settled" where
  "ex_vid_response = Resolved (Some \<lparr>resp_success = True, resp_data = Some []\<rparr>)"

section \<open>ChatWidgetSidebar: the step workflow\<close>

datatype step_status = Pending | Loading | Done

record concept =
  cp_title :: string

record script_segment =
  ss_id :: string
  ss_segmentId :: "string option"
  ss_uuid :: "string option"
  ss_visual :: "jsstring option"
  ss_animation :: "jsstring option"
  ss_s3Key :: "string option"
  ss_image_s3_key :: "string option"
  ss_imageS3Key :: "string option"
  ss_videoUrl :: "string option"
  ss_video_url :: "string option"

record script =
  sc_segments :: "script_segment list option"
  sc_artStyle :: "string option"

text \<open>
  What \<open>creditDeductionMessage\<close> shows: a credit deduction for a service, or
  \<^verbatim>\<open>`${serviceName} request failed`\<close>. It is cleared by a timer after three seconds,
  which the model leaves out.
\<close>

datatype notice = CreditDeducted string | RequestFailed string

text \<open>The calls to the text and generation services, in the order they are launched.\<close>

datatype ext_call =
    WebInfoCall
  | ConceptsCall
  | SegmentationCall
  | ImageCall string
  | VideoCall string

datatype task_status = Generating | Completed | Errored

record progress =
  pg_type :: string
  pg_status :: task_status
  pg_index :: nat
  pg_total :: nat
  pg_error :: "string option"

text \<open>
  The state of the \<open>ChatWidgetSidebar\<close> component. \<open>selectedProject\<close> is the id of the
  selected project; \<open>stepStatus\<close> is the object with the keys \<open>0\<close> to \<open>5\<close>;
  \<open>generatedImages\<close> and \<open>generatedVideos\<close> are objects from segment id to URL, kept as
  association lists because the code counts their keys.
\<close>

record widget =
  prompt :: jsstring
  loading :: bool
  error :: "string option"
  selectedProject :: "string option"
  currentStep :: nat
  stepStatus :: "nat \<Rightarrow> step_status"
  concepts :: "concept list option"
  selectedConcept :: "concept option"
  scripts :: "(script \<times> script) option"
  selectedScript :: "script option"
  generatedImages :: "(string \<times> string) list"
  generatedVideos :: "(string \<times> string) list"
  generationProgress :: "string \<rightharpoonup> progress"
  creditDeductionMessage :: "notice option"
  calls :: "ext_call list"

definition updateStepStatus :: "nat \<Rightarrow> step_status \<Rightarrow> widget \<Rightarrow> widget" where
  "updateStepStatus stepId status s = s\<lparr>stepStatus := (stepStatus s)(stepId := status)\<rparr>"

definition showRequestFailed :: "string \<Rightarrow> widget \<Rightarrow> widget" where
  "showRequestFailed serviceName s = s\<lparr>creditDeductionMessage := Some (RequestFailed serviceName)\<rparr>"

definition showCreditDeduction :: "string \<Rightarrow> widget \<Rightarrow> widget" where
  "showCreditDeduction serviceName s =
     s\<lparr>creditDeductionMessage := Some (CreditDeducted serviceName)\<rparr>"

text \<open>\<^verbatim>\<open>error.message || fallback\<close>.\<close>

definition message_or :: "string \<Rightarrow> string \<Rightarrow> string" where
  "message_or msg fallback = (if msg \<noteq> [] then msg else fallback)"

text \<open>The message of the \<open>TypeError\<close> that reading a property of \<open>undefined\<close> throws.\<close>

definition type_error :: string where
  "type_error = ''Cannot read properties of undefined''"

subsection \<open>The derived step status\<close>

text \<open>\<^verbatim>\<open>selectedScript && selectedScript.segments && selectedScript.segments.length > 0\<close>.\<close>

definition has_segments :: "script option \<Rightarrow> bool" where
  "has_segments sc =
     (case sc of
        None \<Rightarrow> False
      | Some x \<Rightarrow> (case sc_segments x of None \<Rightarrow> False | Some segs \<Rightarrow> length segs > 0))"

text \<open>\<^verbatim>\<open>selectedScript?.segments?.some(f)\<close>.\<close>

definition some_segment :: "(script_segment \<Rightarrow> bool) \<Rightarrow> script option \<Rightarrow> bool" where
  "some_segment f sc =
     (case sc of
        None \<Rightarrow> False
      | Some x \<Rightarrow> (case sc_segments x of None \<Rightarrow> False | Some segs \<Rightarrow> list_ex f segs))"

definition hasImages :: "widget \<Rightarrow> bool" where
  "hasImages s =
     (length (generatedImages s) > 0 \<or>
      some_segment
        (\<lambda>seg. truthy (ss_s3Key seg) \<or> truthy (ss_image_s3_key seg) \<or> truthy (ss_imageS3Key seg))
        (selectedScript s))"

definition hasVideos :: "widget \<Rightarrow> bool" where
  "hasVideos s =
     (length (generatedVideos s) > 0 \<or>
      some_segment (\<lambda>seg. truthy (ss_videoUrl seg) \<or> truthy (ss_video_url seg))
        (selectedScript s))"

definition done_if :: "bool \<Rightarrow> step_status" where
  "done_if b = (if b then Done else Pending)"

text \<open>
  The effect that runs after a change of the project, the concepts, the selections or
  the generated maps: with a project selected it writes all six step statuses.
\<close>

definition stepStatusEffect :: "widget \<Rightarrow> widget" where
  "stepStatusEffect s =
     (if selectedProject s = None then s
      else
        s\<lparr>stepStatus :=
            (stepStatus s)
              (0 := done_if (case concepts s of None \<Rightarrow> False | Some cs \<Rightarrow> length cs > 0),
               1 := done_if (selectedConcept s \<noteq> None),
               2 := done_if (has_segments (selectedScript s)),
               3 := done_if (has_segments (selectedScript s)),
               4 := done_if (hasImages s),
               5 := done_if (hasVideos s))\<rparr>)"

definition handleConceptSelect :: "concept \<Rightarrow> widget \<Rightarrow> widget" where
  "handleConceptSelect c s =
     (updateStepStatus 1 Done (s\<lparr>selectedConcept := Some c\<rparr>))\<lparr>currentStep := 2\<rparr>"

definition handleScriptSelect :: "script \<Rightarrow> widget \<Rightarrow> widget" where
  "handleScriptSelect sc s =
     (updateStepStatus 3 Done (s\<lparr>selectedScript := Some sc\<rparr>))\<lparr>currentStep := 4\<rparr>"

subsection \<open>Concept writer and script generation\<close>

definition conceptWriter_failed :: "string \<Rightarrow> widget \<Rightarrow> widget" where
  "conceptWriter_failed msg s =
     (updateStepStatus 0 Pending
        ((showRequestFailed ''Concept Generation'' s)
           \<lparr>error := Some (message_or msg ''Failed to generate concepts. Please try again.'')\<rparr>))
       \<lparr>loading := False\<rparr>"

text \<open>
  \<open>runConceptWriter\<close>, given how its two awaited calls settle. The web-info result is
  given by the message contents of its \<open>choices\<close>; reading \<open>choices[0].message\<close> of an
  empty list throws inside the \<open>try\<close> block. The second call is launched only when the
  first has resolved.
\<close>

definition runConceptWriter ::
  "jsstring list settled \<Rightarrow> concept list option settled \<Rightarrow> widget \<Rightarrow> widget" where
  "runConceptWriter webInfoResult conceptsResult s =
     (if js_trim (prompt s) = [] then s\<lparr>error := Some ''Please enter a prompt first''\<rparr>
      else
        (let s1 = (updateStepStatus 0 Loading (s\<lparr>loading := True, error := None\<rparr>))
                    \<lparr>calls := calls s @ [WebInfoCall]\<rparr>
         in case webInfoResult of
              Rejected msg \<Rightarrow> conceptWriter_failed msg s1
            | Resolved [] \<Rightarrow> conceptWriter_failed type_error s1
            | Resolved (webInfoContent # rest) \<Rightarrow>
                (let s2 = s1\<lparr>calls := calls s1 @ [ConceptsCall]\<rparr>
                 in case conceptsResult of
                      Rejected msg \<Rightarrow> conceptWriter_failed msg s2
                    | Resolved cs \<Rightarrow>
                        (updateStepStatus 0 Done
                           ((showCreditDeduction ''Concept Writer Process'' s2)\<lparr>concepts := cs\<rparr>))
                          \<lparr>currentStep := 1, loading := False\<rparr>)))"

definition scriptGeneration_failed :: "string \<Rightarrow> widget \<Rightarrow> widget" where
  "scriptGeneration_failed msg s =
     (updateStepStatus 2 Pending
        ((showRequestFailed ''Script Generation'' s)
           \<lparr>error := Some (message_or msg ''Failed to generate scripts. Please try again.'')\<rparr>))
       \<lparr>loading := False\<rparr>"

text \<open>
  \<open>runScriptGeneration\<close>: both requests are launched before the \<^verbatim>\<open>Promise.all\<close> is
  awaited. When both reject, the model reports the first one's message.
\<close>

definition runScriptGeneration :: "script settled \<Rightarrow> script settled \<Rightarrow> widget \<Rightarrow> widget" where
  "runScriptGeneration r1 r2 s =
     (if selectedConcept s = None then s\<lparr>error := Some ''Please select a concept first''\<rparr>
      else
        (let s1 = (updateStepStatus 2 Loading (s\<lparr>loading := True, error := None\<rparr>))
                    \<lparr>calls := calls s @ [SegmentationCall, SegmentationCall]\<rparr>
         in case r1 of
              Rejected msg \<Rightarrow> scriptGeneration_failed msg s1
            | Resolved res1 \<Rightarrow>
                (case r2 of
                   Rejected msg \<Rightarrow> scriptGeneration_failed msg s1
                 | Resolved res2 \<Rightarrow>
                     (updateStepStatus 2 Done
                        ((showCreditDeduction ''Script Generation'' s1)
                           \<lparr>scripts := Some (res1, res2)\<rparr>))
                       \<lparr>currentStep := 3, loading := False\<rparr>)))"

subsection \<open>Batch generation\<close>

text \<open>
  How one per-segment task of a batch ends: the generation call throws, or it returns a
  response with its \<open>s3_key\<close> and the download of that key settles. A task catches
  every error itself, so its promise never rejects.
\<close>

datatype task_outcome = Threw string | Returned "string option" "string settled"

text \<open>The URL a task records: it has one when the key is truthy and the download resolved.\<close>

definition success_url :: "task_outcome \<Rightarrow> string option" where
  "success_url outcome =
     (case outcome of
        Threw msg \<Rightarrow> None
      | Returned s3_key download \<Rightarrow>
          (case download of
             Rejected msg \<Rightarrow> None
           | Resolved url \<Rightarrow> if truthy s3_key then Some url else None))"

text \<open>
  What the tasks of a batch write: the map from segment id to URL (\<open>imagesMap\<close> or
  \<open>videosMap\<close>), the \<open>s3Key\<close> of the script's segment objects, and the progress entries.
\<close>

record batch =
  bt_map :: "(string \<times> string) list"
  bt_segments :: "script_segment list"
  bt_progress :: "string \<rightharpoonup> progress"

definition task_progress ::
  "string \<Rightarrow> task_status \<Rightarrow> nat \<Rightarrow> nat \<Rightarrow> string option \<Rightarrow> progress" where
  "task_progress kind status i n err =
     \<lparr>pg_type = kind, pg_status = status, pg_index = i, pg_total = n, pg_error = err\<rparr>"

definition task_error :: "string \<Rightarrow> nat \<Rightarrow> nat \<Rightarrow> script_segment \<Rightarrow> string \<Rightarrow> batch \<Rightarrow> batch" where
  "task_error kind i n segment msg b =
     b\<lparr>bt_progress := (bt_progress b)(ss_id segment \<mapsto> task_progress kind Errored (i + 1) n (Some msg))\<rparr>"

text \<open>
  The rest of task \<open>i\<close> after its calls have settled. A task is a segment with its
  position in the script's segment list. An image task also writes \<open>segment.s3Key\<close>,
  on the segment object that the script holds.
\<close>

definition settle_task ::
  "string \<Rightarrow> (nat \<times> script_segment) list \<Rightarrow> (nat \<Rightarrow> task_outcome) \<Rightarrow> nat \<Rightarrow> batch \<Rightarrow> batch" where
  "settle_task kind tasks outcome i b =
     (if i < length tasks then
        (let j = fst (tasks ! i); segment = snd (tasks ! i); n = length tasks
         in case outcome i of
              Threw msg \<Rightarrow> task_error kind i n segment msg b
            | Returned s3_key download \<Rightarrow>
                if truthy s3_key then
                  (case download of
                     Rejected msg \<Rightarrow> task_error kind i n segment msg b
                   | Resolved url \<Rightarrow>
                       b\<lparr>bt_map := AList.update (ss_id segment) url (bt_map b),
                         bt_segments :=
                           (if kind = ''image''
                            then (bt_segments b)[j := (bt_segments b ! j)\<lparr>ss_s3Key := s3_key\<rparr>]
                            else bt_segments b),
                         bt_progress := (bt_progress b)(ss_id segment \<mapsto>
                           task_progress kind Completed (i + 1) n None)\<rparr>)
                else task_error kind i n segment (''No '' @ kind @ '' key returned from API'') b)
      else b)"

text \<open>The synchronous start of every task: its progress entry and its generation call.\<close>

definition launch_progress :: "string \<Rightarrow> (nat \<times> script_segment) list \<Rightarrow> string \<rightharpoonup> progress" where
  "launch_progress kind tasks =
     fold (\<lambda>(i, t) m. m(ss_id (snd t) \<mapsto> task_progress kind Generating (i + 1) (length tasks) None))
       (indexed tasks) Map.empty"

text \<open>
  \<^verbatim>\<open>await Promise.allSettled(promises)\<close> resumes when every one of the \<open>n\<close> launched
  tasks has settled; \<open>settledOrder\<close> lists the tasks that have settled so far, in the
  order in which they did.
\<close>

definition all_settled :: "nat \<Rightarrow> nat list \<Rightarrow> bool" where
  "all_settled n settledOrder = list_all (\<lambda>i. i \<in> set settledOrder) [0..<n]"

definition has_visual :: "script_segment \<Rightarrow> bool" where
  "has_visual seg = (case ss_visual seg of None \<Rightarrow> False | Some v \<Rightarrow> v \<noteq> [] \<and> js_trim v \<noteq> [])"

definition segmentsToGenerate :: "script_segment list \<Rightarrow> (nat \<times> script_segment) list" where
  "segmentsToGenerate segments = filter (\<lambda>t. has_visual (snd t)) (indexed segments)"

definition imageGeneration_failed :: "string \<Rightarrow> widget \<Rightarrow> widget" where
  "imageGeneration_failed msg s =
     (updateStepStatus 4 Pending
        ((showRequestFailed ''Image Generation'' s)
           \<lparr>error := Some (message_or msg ''Failed to generate images. Please try again.'')\<rparr>))
       \<lparr>loading := False\<rparr>"

text \<open>
  \<open>runImageGeneration\<close>, given the outcome of every task and the tasks settled so far.
  The result is \<open>None\<close> while the function is suspended at \<^verbatim>\<open>await Promise.allSettled\<close>.
\<close>

definition runImageGeneration :: "(nat \<Rightarrow> task_outcome) \<Rightarrow> nat list \<Rightarrow> widget \<Rightarrow> widget option" where
  "runImageGeneration outcome settledOrder s =
     (case selectedScript s of
        None \<Rightarrow> Some (s\<lparr>error := Some ''Please select a script first''\<rparr>)
      | Some script \<Rightarrow>
          (let s1 = (updateStepStatus 4 Loading (s\<lparr>loading := True, error := None\<rparr>))
                      \<lparr>generationProgress := Map.empty\<rparr>
           in case sc_segments script of
                None \<Rightarrow> Some (imageGeneration_failed type_error s1)
              | Some segments \<Rightarrow>
                  (let tasks = segmentsToGenerate segments
                   in if length tasks = 0 then
                        Some ((updateStepStatus 4 Pending
                                 (s1\<lparr>error := Some ''No visual prompts found in script segments.'',
                                     loading := False\<rparr>)))
                      else
                        (let s2 = s1\<lparr>generationProgress := launch_progress ''image'' tasks,
                                     calls := calls s1 @ map (\<lambda>t. ImageCall (ss_id (snd t))) tasks\<rparr>
                         in if all_settled (length tasks) settledOrder then
                              (let b = fold (settle_task ''image'' tasks outcome) settledOrder
                                         \<lparr>bt_map = [], bt_segments = segments,
                                          bt_progress = generationProgress s2\<rparr>
                               in Some ((updateStepStatus 4 Done
                                    ((showCreditDeduction ''Image Generation'' s2)
                                       \<lparr>generationProgress := bt_progress b,
                                        generatedImages := bt_map b,
                                        selectedScript :=
                                          Some (script\<lparr>sc_segments := Some (bt_segments b)\<rparr>)\<rparr>))
                                   \<lparr>currentStep := 5, loading := False\<rparr>))
                            else None))))"

text \<open>
  \<^verbatim>\<open>[segment.id, `seg-${segment.id}`, segment.segmentId, segment.uuid]\<close>: the last two
  may be \<open>undefined\<close>, and \<^verbatim>\<open>generatedImages[undefined]\<close> reads the key \<open>undefined\<close>.
\<close>

definition key_of :: "string option \<Rightarrow> string" where
  "key_of v = (case v of None \<Rightarrow> ''undefined'' | Some k \<Rightarrow> k)"

definition segmentIdVariants :: "script_segment \<Rightarrow> string option list" where
  "segmentIdVariants seg =
     [Some (ss_id seg), Some (''seg-'' @ ss_id seg), ss_segmentId seg, ss_uuid seg]"

text \<open>\<^verbatim>\<open>id => generatedImages[id]\<close>, as a test.\<close>

definition has_image :: "(string \<times> string) list \<Rightarrow> string option \<Rightarrow> bool" where
  "has_image images v = truthy (map_of images (key_of v))"

definition validSegments ::
  "(string \<times> string) list \<Rightarrow> script_segment list \<Rightarrow> (nat \<times> script_segment) list" where
  "validSegments images segments =
     filter (\<lambda>t. list_ex (has_image images) (segmentIdVariants (snd t))) (indexed segments)"

text \<open>
  \<^verbatim>\<open>segmentIdVariants.find(id => generatedImages[id])\<close>: the first variant with an image,
  which is the variant itself and so may be \<open>undefined\<close> or \<open>''\<close>; \<open>undefined\<close> also
  when no variant has one.
\<close>

definition matchingImageKey :: "(string \<times> string) list \<Rightarrow> script_segment \<Rightarrow> string option" where
  "matchingImageKey images seg =
     (case find (has_image images) (segmentIdVariants seg) of None \<Rightarrow> None | Some v \<Rightarrow> v)"

text \<open>
  A video task begins with \<^verbatim>\<open>if (!matchingImageKey) return null\<close>: with a falsy key it
  writes no progress entry, launches no call and records nothing, and its promise is
  fulfilled at once. The other tasks are the started ones.
\<close>

definition video_started :: "(string \<times> string) list \<Rightarrow> nat \<times> script_segment \<Rightarrow> bool" where
  "video_started images t = truthy (matchingImageKey images (snd t))"

definition launch_video_progress ::
  "(string \<times> string) list \<Rightarrow> (nat \<times> script_segment) list \<Rightarrow> string \<rightharpoonup> progress" where
  "launch_video_progress images tasks =
     fold (\<lambda>(i, t) m.
            if video_started images t
            then m(ss_id (snd t) \<mapsto> task_progress ''video'' Generating (i + 1) (length tasks) None)
            else m)
       (indexed tasks) Map.empty"

definition settle_video ::
  "(string \<times> string) list \<Rightarrow> (nat \<times> script_segment) list \<Rightarrow> (nat \<Rightarrow> task_outcome) \<Rightarrow>
   nat \<Rightarrow> batch \<Rightarrow> batch" where
  "settle_video images tasks outcome i b =
     (if i < length tasks \<and> video_started images (tasks ! i)
      then settle_task ''video'' tasks outcome i b
      else b)"

text \<open>
  \<^verbatim>\<open>await Promise.allSettled(videoPromises)\<close> resumes when every started task has
  settled; the tasks that returned at once have settled already.
\<close>

definition videos_settled ::
  "(string \<times> string) list \<Rightarrow> (nat \<times> script_segment) list \<Rightarrow> nat list \<Rightarrow> bool" where
  "videos_settled images tasks settledOrder =
     list_all (\<lambda>i. video_started images (tasks ! i) \<longrightarrow> i \<in> set settledOrder) [0..<length tasks]"

definition videoGeneration_failed :: "string \<Rightarrow> widget \<Rightarrow> widget" where
  "videoGeneration_failed msg s =
     (updateStepStatus 5 Pending
        ((showRequestFailed ''Video Generation'' s)
           \<lparr>error := Some (message_or msg ''Failed to generate videos. Please try again.'')\<rparr>))
       \<lparr>loading := False\<rparr>"

text \<open>
  \<open>runVideoGeneration\<close>, in the same way. Its tasks are the segments that have an image
  under one of their id variants; a task whose matching variant is falsy returns at once.
\<close>

definition runVideoGeneration :: "(nat \<Rightarrow> task_outcome) \<Rightarrow> nat list \<Rightarrow> widget \<Rightarrow> widget option" where
  "runVideoGeneration outcome settledOrder s =
     (if length (generatedImages s) = 0 then Some (s\<lparr>error := Some ''Please generate images first''\<rparr>)
      else
        (let s1 = (updateStepStatus 5 Loading (s\<lparr>loading := True, error := None\<rparr>))
                    \<lparr>generationProgress := Map.empty\<rparr>
         in case selectedScript s of
              None \<Rightarrow> Some (videoGeneration_failed type_error s1)
            | Some script \<Rightarrow>
                (case sc_segments script of
                   None \<Rightarrow> Some (videoGeneration_failed type_error s1)
                 | Some segments \<Rightarrow>
                     (let tasks = validSegments (generatedImages s) segments;
                          s2 = s1\<lparr>generationProgress :=
                                    launch_video_progress (generatedImages s) tasks,
                                  calls := calls s1 @
                                    map (\<lambda>t. VideoCall (ss_id (snd t)))
                                      (filter (video_started (generatedImages s)) tasks)\<rparr>
                      in if videos_settled (generatedImages s) tasks settledOrder then
                           (let b = fold (settle_video (generatedImages s) tasks outcome)
                                      settledOrder
                                      \<lparr>bt_map = [], bt_segments = segments,
                                       bt_progress = generationProgress s2\<rparr>;
                                s3 = (if length tasks > 0
                                      then showCreditDeduction ''Video Generation'' s2 else s2)
                            in Some ((updateStepStatus 5 Done
                                 (s3\<lparr>generationProgress := bt_progress b,
                                     generatedVideos := bt_map b\<rparr>))
                                \<lparr>loading := False\<rparr>))
                         else None))))"

text \<open>The tasks that the two batch functions create in a state.\<close>

definition image_tasks :: "widget \<Rightarrow> (nat \<times> script_segment) list" where
  "image_tasks s =
     (case selectedScript s of
        None \<Rightarrow> []
      | Some script \<Rightarrow>
          (case sc_segments script of None \<Rightarrow> [] | Some segments \<Rightarrow> segmentsToGenerate segments))"

definition video_tasks :: "widget \<Rightarrow> (nat \<times> script_segment) list" where
  "video_tasks s =
     (case selectedScript s of
        None \<Rightarrow> []
      | Some script \<Rightarrow>
          (case sc_segments script of
             None \<Rightarrow> []
           | Some segments \<Rightarrow> validSegments (generatedImages s) segments))"

text \<open>Every URL of a batch map was recorded by a task that succeeded for that key.\<close>

definition recorded ::
  "(nat \<times> script_segment) list \<Rightarrow> (nat \<Rightarrow> task_outcome) \<Rightarrow> batch \<Rightarrow> bool" where
  "recorded tasks outcome b \<longleftrightarrow>
     (\<forall>k u. map_of (bt_map b) k = Some u \<longrightarrow>
        (\<exists>i<length tasks. ss_id (snd (tasks ! i)) = k \<and> success_url (outcome i) = Some u))"

text \<open>
  A widget with a selected project, a prompt, a selected concept and a selected script of
  one segment, before any generation.
\<close>

definition ex_script_segment :: script_segment where
  "ex_script_segment =
     \<lparr>ss_id = ''1'', ss_segmentId = None, ss_uuid = None, ss_visual = Some [0x61],
      ss_animation = Some [0x62], ss_s3Key = None, ss_image_s3_key = None,
      ss_imageS3Key = None, ss_videoUrl = None, ss_video_url = None\<rparr>"

definition ex_script :: script where
  "ex_script = \<lparr>sc_segments = Some [ex_script_segment], sc_artStyle = None\<rparr>"

definition ex_widget :: widget where
  "ex_widget =
     \<lparr>prompt = [0x61], loading = False, error = None, selectedProject = Some ''p1'',
      currentStep = 0, stepStatus = (\<lambda>i. Pending), concepts = None,
      selectedConcept = Some \<lparr>cp_title = ''Dog''\<rparr>, scripts = None,
      selectedScript = Some ex_script, generatedImages = [], generatedVideos = [],
      generationProgress = Map.empty, creditDeductionMessage = None, calls = []\<rparr>"

text \<open>
  A widget whose selected script has two segments with visual prompts, task outcomes
  where task 0 throws and task 1 succeeds, and the same widget with an image for each
  segment.
\<close>

definition ex_batch_script :: script where
  "ex_batch_script =
     \<lparr>sc_segments = Some [ex_script_segment, ex_script_segment\<lparr>ss_id := ''2''\<rparr>],
      sc_artStyle = None\<rparr>"

definition ex_batch_widget :: widget where
  "ex_batch_widget = ex_widget\<lparr>selectedScript := Some ex_batch_script\<rparr>"

definition ex_outcome :: "nat \<Rightarrow> task_outcome" where
  "ex_outcome i = (if i = 0 then Threw ''boom'' else Returned (Some ''k2'') (Resolved ''url2''))"

definition ex_video_widget :: widget where
  "ex_video_widget = ex_batch_widget\<lparr>generatedImages := [(''1'', ''img1''), (''2'', ''img2'')]\<rparr>"

text \<open>
  A widget whose script has one segment with the id \<open>''\<close>, and an image stored under
  the key \<open>''\<close>: the segment is valid, and its matching key is falsy.
\<close>

definition ex_skip_widget :: widget where
  "ex_skip_widget =
     ex_widget
       \<lparr>selectedScript :=
          Some \<lparr>sc_segments = Some [ex_script_segment\<lparr>ss_id := []\<rparr>], sc_artStyle = None\<rparr>,
        generatedImages := [([], ''img'')]\<rparr>"

text \<open>A script that came back with an empty segment list.\<close>

definition ex_empty_script :: script where
  "ex_empty_script = \<lparr>sc_segments = Some [], sc_artStyle = None\<rparr>"

section \<open>Properties of the reconciled view\<close>

subsection \<open>Segment identifier shapes\<close>

lemma after_seg_digits: "n \<noteq> [] \<Longrightarrow> list_all is_digit n \<Longrightarrow> after_seg n = None"
  by (cases n) (auto simp: after_seg_def is_digit_def)

lemma after_seg_prefixed: "after_seg (''seg-'' @ r) = Some r"
  by (simp add: after_seg_def)

lemma takeWhile_digits_dash:
  "list_all is_digit n \<Longrightarrow> takeWhile is_digit (n @ CHR ''-'' # t) = n"
  by (induction n) (auto simp: is_digit_def)

lemma dropWhile_digits_dash:
  "list_all is_digit n \<Longrightarrow> dropWhile is_digit (n @ CHR ''-'' # t) = CHR ''-'' # t"
  by (induction n) (auto simp: is_digit_def)

lemma takeWhile_all_digits: "list_all is_digit n \<Longrightarrow> takeWhile is_digit n = n"
  by (induction n) auto

lemma dropWhile_all_digits: "list_all is_digit n \<Longrightarrow> dropWhile is_digit n = []"
  by (induction n) auto

lemma image_segmentId_bare:
  "n \<noteq> [] \<Longrightarrow> list_all is_digit n \<Longrightarrow> image_segmentId n = n"
  by (simp add: image_segmentId_def after_seg_digits)

lemma image_segmentId_seg:
  "n \<noteq> [] \<Longrightarrow> list_all is_digit n \<Longrightarrow> image_segmentId (''seg-'' @ n) = n"
  unfolding image_segmentId_def after_seg_prefixed
  by (simp add: takeWhile_all_digits dropWhile_all_digits)

lemma image_segmentId_seg_ts:
  "n \<noteq> [] \<Longrightarrow> list_all is_digit n \<Longrightarrow> t \<noteq> [] \<Longrightarrow> list_all is_digit t \<Longrightarrow>
   image_segmentId (''seg-'' @ n @ ''-'' @ t) = n"
  unfolding image_segmentId_def after_seg_prefixed
  by (simp add: takeWhile_digits_dash dropWhile_digits_dash)

lemma video_segmentId_bare:
  "n \<noteq> [] \<Longrightarrow> list_all is_digit n \<Longrightarrow> video_segmentId n = n"
  by (simp add: video_segmentId_def after_seg_digits)

lemma video_segmentId_prefixed: "video_segmentId (''seg-'' @ r) = r"
  unfolding video_segmentId_def after_seg_prefixed by simp

text \<open>
  Claim C2, as amended. For a segment id \<open>n\<close> and a timestamp \<open>t\<close>, both non-empty
  digit strings: the image path maps \<open>n\<close>, \<open>seg-n\<close> and \<open>seg-n-t\<close> to \<open>n\<close>; the video path
  only strips the \<open>seg-\<close> prefix, so it maps \<open>n\<close> and \<open>seg-n\<close> to \<open>n\<close> and \<open>seg-n-t\<close> to
  \<open>n-t\<close>; the segment path takes an explicit \<open>segmentId\<close> field as it is and otherwise the
  \<open>id\<close> field unchanged.
\<close>

theorem segment_id_shapes:
  assumes "n \<noteq> []" and "list_all is_digit n" and "t \<noteq> []" and "list_all is_digit t"
  shows "image_segmentId n = n \<and>
         image_segmentId (''seg-'' @ n) = n \<and>
         image_segmentId (''seg-'' @ n @ ''-'' @ t) = n \<and>
         video_segmentId n = n \<and>
         video_segmentId (''seg-'' @ n) = n \<and>
         video_segmentId (''seg-'' @ n @ ''-'' @ t) = n @ ''-'' @ t \<and>
         seg_id (process_segment (seg\<lparr>rs_segmentId := Some n\<rparr>)) = n \<and>
         seg_id (process_segment (seg\<lparr>rs_segmentId := None\<rparr>)) = rs_id seg"
  using assms image_segmentId_bare [of n] image_segmentId_seg [of n]
    image_segmentId_seg_ts [of n t] video_segmentId_bare [of n]
    video_segmentId_prefixed [of n] video_segmentId_prefixed [of "n @ ''-'' @ t"]
  by (simp add: process_segment_def js_or_def)

theorem segment_id_shapes_witness:
  "''2'' \<noteq> [] \<and> list_all is_digit ''2'' \<and> ''1700'' \<noteq> [] \<and> list_all is_digit ''1700'' \<and>
   image_segmentId ''2'' = ''2'' \<and>
   image_segmentId ''seg-2'' = ''2'' \<and>
   image_segmentId ''seg-2-1700'' = ''2'' \<and>
   video_segmentId ''2'' = ''2'' \<and>
   video_segmentId ''seg-2'' = ''2'' \<and>
   video_segmentId ''seg-2-1700'' = ''2-1700'' \<and>
   seg_id (process_segment (ex_raw_segment\<lparr>rs_segmentId := Some ''2''\<rparr>)) = ''2'' \<and>
   seg_id (process_segment (ex_raw_segment\<lparr>rs_segmentId := None\<rparr>)) = ''seg-2''"
proof -
  have d: "''2'' \<noteq> []" "list_all is_digit ''2''" "''1700'' \<noteq> []" "list_all is_digit ''1700''"
    by (simp_all add: is_digit_def)
  show ?thesis
    using d segment_id_shapes [OF d, of ex_raw_segment]
    by (simp add: ex_raw_segment_def)
qed

text \<open>
  Claim C2 as stated fails: the video path maps \<open>seg-2-1700\<close> to \<open>2-1700\<close>, where the image
  path gives \<open>2\<close>, and the segment path leaves the id \<open>seg-2\<close> as it is.
\<close>

theorem segment_id_shapes_counterexample:
  "video_segmentId ''seg-2-1700'' = ''2-1700'' \<and>
   image_segmentId ''seg-2-1700'' = ''2'' \<and>
   video_segmentId ''seg-2-1700'' \<noteq> ''2'' \<and>
   seg_id (process_segment ex_raw_segment) = ''seg-2'' \<and>
   seg_id (process_segment ex_raw_segment) \<noteq> ''2''"
  by (simp add: video_segmentId_def image_segmentId_def after_seg_def is_digit_def
      process_segment_def ex_raw_segment_def js_or_def)

subsection \<open>Preview videos\<close>

lemma add_temporary_other:
  "k \<notin> fst ` set tv \<Longrightarrow> add_temporary tv m k = m k"
  unfolding add_temporary_def
  by (induction tv arbitrary: m) (auto split: prod.splits)

lemma add_temporary_entry:
  "distinct (map fst tv) \<Longrightarrow> (k, v) \<in> set tv \<Longrightarrow> add_temporary tv m k = Some v"
proof (induction tv arbitrary: m)
  case Nil
  then show ?case by simp
next
  case (Cons e tv)
  obtain k' v' where e: "e = (k', v')" by (cases e)
  have step: "add_temporary (e # tv) m = add_temporary tv (m(k' \<mapsto> v'))"
    by (simp add: add_temporary_def e)
  show ?case
  proof (cases "(k, v) \<in> set tv")
    case True
    with Cons show ?thesis by (simp add: step)
  next
    case False
    with Cons.prems e have kv: "k = k'" "v = v'" and "k \<notin> fst ` set tv"
      by auto
    then show ?thesis by (simp add: step add_temporary_other)
  qed
qed

lemma flowData_videos:
  "fd_videos (flowData apd tv) = add_temporary tv (fst (canonical_videos apd))"
  by (simp add: flowData_def Let_def)

text \<open>
  Claim C1, as amended. The entries of \<open>temporaryVideos\<close> (a \<open>Map\<close>, so its keys are
  distinct) are written over the server's videos: under the key of a preview entry the
  merged map holds the preview URL, whether or not the server has a video for that key,
  and under every other key it holds what the server's videos give.
\<close>

theorem preview_overlay:
  assumes "distinct (map fst temporaryVideos)"
  shows "((key, videoUrl) \<in> set temporaryVideos \<longrightarrow>
            fd_videos (flowData apd temporaryVideos) key = Some videoUrl) \<and>
         (key \<notin> fst ` set temporaryVideos \<longrightarrow>
            fd_videos (flowData apd temporaryVideos) key = fst (canonical_videos apd) key)"
  using assms by (simp add: flowData_videos add_temporary_entry add_temporary_other)

theorem preview_overlay_witness:
  "distinct (map fst ex_preview) \<and>
   (''2-7'', cloudfront ''tmp.mp4'') \<in> set ex_preview \<and>
   fd_videos (flowData ex_apd ex_preview) ''2-7'' = Some (cloudfront ''tmp.mp4'') \<and>
   ''2'' \<notin> fst ` set ex_preview \<and>
   fd_videos (flowData ex_apd ex_preview) ''2'' = fst (canonical_videos ex_apd) ''2''"
proof -
  have d: "distinct (map fst ex_preview)"
    by (simp add: ex_preview_def)
  show ?thesis
    using d preview_overlay [OF d, of "''2-7''" "cloudfront ''tmp.mp4''" ex_apd]
      preview_overlay [OF d, of "''2''" "[]" ex_apd]
    by (simp add: ex_preview_def)
qed

text \<open>
  Claim C1 as stated fails: the server has a video under the key \<open>2-7\<close>, and the merged
  map holds the preview video under that key.
\<close>

theorem preview_overlay_counterexample:
  "fst (canonical_videos ex_apd) ''2-7'' = Some (cloudfront ''a.mp4'') \<and>
   fd_videos (flowData ex_apd ex_preview) ''2-7'' = Some (cloudfront ''tmp.mp4'') \<and>
   fd_videos (flowData ex_apd ex_preview) ''2-7'' \<noteq> fst (canonical_videos ex_apd) ''2-7''"
  by (simp add: flowData_videos add_temporary_def canonical_videos_def ex_apd_def
      ex_preview_def video_entry_def video_segmentId_def after_seg_def truthy_def js_or_def
      cloudfront_def Let_def)

subsection \<open>Primary image\<close>

lemma insert_primary: "fi_isPrimary x \<Longrightarrow> insert_by primary_cmp x ys = x # ys"
  by (cases ys) (auto simp: primary_cmp_def)

lemma insert_secondary:
  "\<not> fi_isPrimary x \<Longrightarrow> \<forall>y\<in>set ps. fi_isPrimary y \<Longrightarrow> \<forall>y\<in>set ns. \<not> fi_isPrimary y \<Longrightarrow>
   insert_by primary_cmp x (ps @ ns) = ps @ x # ns"
proof (induction ps)
  case Nil
  then show ?case by (cases ns) (auto simp: primary_cmp_def)
next
  case (Cons p ps)
  then show ?case by (simp add: primary_cmp_def)
qed

lemma js_sort_primary:
  "js_sort primary_cmp xs = filter fi_isPrimary xs @ filter (\<lambda>i. \<not> fi_isPrimary i) xs"
proof (induction xs)
  case Nil
  then show ?case by (simp add: js_sort_def)
next
  case (Cons x xs)
  have unfold: "js_sort primary_cmp (x # xs) = insert_by primary_cmp x (js_sort primary_cmp xs)"
    by (simp add: js_sort_def)
  show ?case
  proof (cases "fi_isPrimary x")
    case True
    then show ?thesis by (simp add: unfold insert_primary Cons.IH)
  next
    case False
    then show ?thesis by (simp add: unfold Cons.IH insert_secondary)
  qed
qed

lemma js_sort_primary_set: "set (js_sort primary_cmp xs) = set xs"
  by (auto simp: js_sort_primary)

lemma js_sort_primary_Nil: "js_sort primary_cmp xs = [] \<longleftrightarrow> xs = []"
  using js_sort_primary_set [of xs] by (metis set_empty)

lemma hd_sort_flagged:
  assumes "length (filter fi_isPrimary xs) \<le> 1" and "x \<in> set xs" and "fi_isPrimary x"
  shows "hd (js_sort primary_cmp xs) = x"
proof -
  from assms(2,3) have mem: "x \<in> set (filter fi_isPrimary xs)" by simp
  with assms(1) have "filter fi_isPrimary xs = [x]"
    by (cases "filter fi_isPrimary xs") auto
  then show ?thesis by (simp add: js_sort_primary)
qed

lemma surface_primary_sets:
  "map_of al k = Some xs \<Longrightarrow> xs \<noteq> [] \<Longrightarrow> surfaced k xs (surface_primary al k acc)"
  by (simp add: surfaced_def surface_primary_def primaryImage_def)

lemma surface_primary_keeps:
  "map_of al k = Some xs \<Longrightarrow> xs \<noteq> [] \<Longrightarrow> surfaced k xs acc \<Longrightarrow>
   surfaced k xs (surface_primary al k' acc)"
  by (cases "k' = k")
    (auto simp: surfaced_def surface_primary_def primaryImage_def split: option.splits)

lemma fold_surface_keeps:
  "map_of al k = Some xs \<Longrightarrow> xs \<noteq> [] \<Longrightarrow> surfaced k xs acc \<Longrightarrow>
   surfaced k xs (fold (surface_primary al) ks acc)"
  by (induction ks arbitrary: acc) (simp_all add: surface_primary_keeps)

lemma fold_surface_sets:
  "map_of al k = Some xs \<Longrightarrow> xs \<noteq> [] \<Longrightarrow> k \<in> set ks \<Longrightarrow>
   surfaced k xs (fold (surface_primary al) ks acc)"
proof (induction ks arbitrary: acc)
  case Nil
  then show ?case by simp
next
  case (Cons a ks)
  show ?case
  proof (cases "a = k")
    case True
    with Cons.prems show ?thesis
      by (simp add: fold_surface_keeps surface_primary_sets)
  next
    case False
    with Cons show ?thesis by simp
  qed
qed

lemma flowData_surfaced:
  assumes "map_of (allImagesBySegment (apd_images apd)) k = Some xs" and "xs \<noteq> []"
  shows "surfaced k xs (fd_images (flowData apd tv), fd_imageDetails (flowData apd tv))"
proof -
  from assms(1) have "k \<in> set (map fst (allImagesBySegment (apd_images apd)))"
    by (metis map_of_eq_None_iff option.distinct(1) set_map)
  with assms show ?thesis
    by (simp add: flowData_def Let_def fold_surface_sets)
qed

text \<open>
  Claim C3. For a segment whose image list is non-empty and has at most one image flagged
  primary: the sort puts the flagged images first and keeps the arrival order within the
  flagged and within the unflagged images (it is stable); the image surfaced as the
  segment's primary image (its URL in \<open>images\<close>, its id in \<open>imageDetails\<close>) is the first
  of the sorted list, an image of the segment, and the flagged image when there is one;
  the flag is the server's boolean when it is one and otherwise says that the uuid
  contains no \<open>-\<close>.
\<close>

theorem primary_first_sort:
  assumes "map_of (allImagesBySegment (apd_images apd)) segmentId = Some segmentImages"
    and "segmentImages \<noteq> []"
    and "length (filter fi_isPrimary segmentImages) \<le> 1"
  shows "js_sort primary_cmp segmentImages =
           filter fi_isPrimary segmentImages @ filter (\<lambda>i. \<not> fi_isPrimary i) segmentImages \<and>
         primaryImage segmentImages = Some (hd (js_sort primary_cmp segmentImages)) \<and>
         hd (js_sort primary_cmp segmentImages) \<in> set segmentImages \<and>
         (\<forall>x\<in>set segmentImages. fi_isPrimary x \<longrightarrow> hd (js_sort primary_cmp segmentImages) = x) \<and>
         fd_images (flowData apd temporaryVideos) segmentId =
           Some (fi_url (hd (js_sort primary_cmp segmentImages))) \<and>
         map_option idt_id (fd_imageDetails (flowData apd temporaryVideos) segmentId) =
           Some (fi_id (hd (js_sort primary_cmp segmentImages))) \<and>
         map_option idt_allImages (fd_imageDetails (flowData apd temporaryVideos) segmentId) =
           Some (js_sort primary_cmp segmentImages) \<and>
         (\<forall>raw key uuid. fi_isPrimary (mk_image raw key uuid) =
            (case ri_isPrimary raw of Some b \<Rightarrow> b | None \<Rightarrow> CHR ''-'' \<notin> set uuid))"
proof -
  have ne: "js_sort primary_cmp segmentImages \<noteq> []"
    using assms(2) by (simp add: js_sort_primary_Nil)
  then have "hd (js_sort primary_cmp segmentImages) \<in> set (js_sort primary_cmp segmentImages)"
    by simp
  then have mem: "hd (js_sort primary_cmp segmentImages) \<in> set segmentImages"
    by (simp add: js_sort_primary_set)
  have flagged: "\<forall>x\<in>set segmentImages. fi_isPrimary x \<longrightarrow> hd (js_sort primary_cmp segmentImages) = x"
    using assms(3) by (simp add: hd_sort_flagged)
  have prim: "primaryImage segmentImages = Some (hd (js_sort primary_cmp segmentImages))"
    using assms(2) by (simp add: primaryImage_def)
  have flag: "\<forall>raw key uuid. fi_isPrimary (mk_image raw key uuid) =
            (case ri_isPrimary raw of Some b \<Rightarrow> b | None \<Rightarrow> CHR ''-'' \<notin> set uuid)"
    by (simp add: mk_image_def primary_flag_def)
  from flowData_surfaced [OF assms(1,2), of temporaryVideos] js_sort_primary [of segmentImages]
    mem flagged prim flag
  show ?thesis unfolding surfaced_def fst_conv snd_conv by blast
qed

theorem primary_first_sort_witness:
  "map_of (allImagesBySegment (apd_images ex_img_apd)) ''2'' = Some ex_segmentImages \<and>
   ex_segmentImages \<noteq> [] \<and>
   length (filter fi_isPrimary ex_segmentImages) \<le> 1 \<and>
   mk_image ex_raw_b ''b.png'' ''seg-2'' \<in> set ex_segmentImages \<and>
   fi_isPrimary (mk_image ex_raw_b ''b.png'' ''seg-2'') \<and>
   js_sort primary_cmp ex_segmentImages =
     [mk_image ex_raw_b ''b.png'' ''seg-2'', mk_image ex_raw_a ''a.png'' ''seg-2-1700''] \<and>
   primaryImage ex_segmentImages = Some (mk_image ex_raw_b ''b.png'' ''seg-2'') \<and>
   fd_images (flowData ex_img_apd []) ''2'' = Some (cloudfront ''b.png'') \<and>
   map_option idt_id (fd_imageDetails (flowData ex_img_apd []) ''2'') = Some ''12''"
proof -
  have h1: "map_of (allImagesBySegment (apd_images ex_img_apd)) ''2'' = Some ex_segmentImages"
    by (simp add: allImagesBySegment_def ex_img_apd_def push_image_def ex_raw_a_def
        ex_raw_b_def image_segmentId_def after_seg_def is_digit_def ex_segmentImages_def Let_def)
  have h2: "ex_segmentImages \<noteq> []"
    by (simp add: ex_segmentImages_def)
  have h3: "length (filter fi_isPrimary ex_segmentImages) \<le> 1"
    by (simp add: ex_segmentImages_def mk_image_def primary_flag_def ex_raw_a_def ex_raw_b_def)
  have flags: "filter fi_isPrimary ex_segmentImages = [mk_image ex_raw_b ''b.png'' ''seg-2'']"
    "filter (\<lambda>i. \<not> fi_isPrimary i) ex_segmentImages = [mk_image ex_raw_a ''a.png'' ''seg-2-1700'']"
    by (simp_all add: ex_segmentImages_def mk_image_def primary_flag_def ex_raw_a_def ex_raw_b_def)
  have vals: "fi_url (mk_image ex_raw_b ''b.png'' ''seg-2'') = cloudfront ''b.png''"
    "fi_id (mk_image ex_raw_b ''b.png'' ''seg-2'') = ''12''"
    by (simp_all add: mk_image_def ex_raw_b_def)
  note T = primary_first_sort [OF h1 h2 h3, of "[]"]
  have sorted: "js_sort primary_cmp ex_segmentImages =
     [mk_image ex_raw_b ''b.png'' ''seg-2'', mk_image ex_raw_a ''a.png'' ''seg-2-1700'']"
    using T flags by simp
  have first: "hd (js_sort primary_cmp ex_segmentImages) = mk_image ex_raw_b ''b.png'' ''seg-2''"
    by (simp add: sorted)
  from T have "primaryImage ex_segmentImages = Some (mk_image ex_raw_b ''b.png'' ''seg-2'')"
    and "fd_images (flowData ex_img_apd []) ''2'' = Some (cloudfront ''b.png'')"
    and "map_option idt_id (fd_imageDetails (flowData ex_img_apd []) ''2'') = Some ''12''"
    unfolding first vals by blast+
  moreover have "mk_image ex_raw_b ''b.png'' ''seg-2'' \<in> set ex_segmentImages"
    and "fi_isPrimary (mk_image ex_raw_b ''b.png'' ''seg-2'')"
    by (simp_all add: ex_segmentImages_def mk_image_def primary_flag_def ex_raw_b_def)
  ultimately show ?thesis using h1 h2 h3 sorted by blast
qed

section \<open>Properties of the graph projection\<close>

lemma fold_push:
  "fold (\<lambda>x. push_elements (f x)) xs acc =
     (fst acc @ concat (map (\<lambda>x. fst (f x)) xs), snd acc @ concat (map (\<lambda>x. snd (f x)) xs))"
  by (induction xs arbitrary: acc) (simp_all add: push_elements_def)

lemma segment_elements_eq:
  "segment_elements fd entry acc =
     (fst acc @
        [\<lparr>node_id = ''segment-'' @ seg_id (snd entry), node_type = segmentNode, node_x = startX,
          node_y = startY + int (fst entry) * segmentSpacing,
          node_data = SegmentData (snd entry) (segment_status fd (seg_id (snd entry)))\<rparr>,
         \<lparr>node_id = ''add-image-'' @ seg_id (snd entry), node_type = addImageNode,
          node_x = startX + nodeSpacing, node_y = startY + int (fst entry) * segmentSpacing,
          node_data = AddImageData (seg_id (snd entry)) (truthy (fd_images fd (seg_id (snd entry))))\<rparr>] @
        concat (map (\<lambda>r. fst (row_of fd entry r)) (segment_rows fd (snd entry))),
      snd acc @
        [mk_edge (''segment-'' @ seg_id (snd entry)) (''add-image-'' @ seg_id (snd entry))] @
        concat (map (\<lambda>r. snd (row_of fd entry r)) (segment_rows fd (snd entry))))"
  unfolding segment_elements_def Let_def case_prod_unfold fold_push row_of_def
  by (simp add: push_elements_def)

lemma segment_elements_push:
  "segment_elements fd entry acc = push_elements (segment_graph fd entry) acc"
  unfolding segment_graph_def by (simp add: segment_elements_eq push_elements_def)

lemma createFlowElements_eq:
  "createFlowElements fd =
     (concat (map (\<lambda>entry. fst (segment_graph fd entry)) (indexed (fd_segments fd))),
      concat (map (\<lambda>entry. snd (segment_graph fd entry)) (indexed (fd_segments fd))))"
proof -
  have "fold (segment_elements fd) xs acc = fold (\<lambda>x. push_elements (segment_graph fd x)) xs acc"
    for xs acc
    by (induction xs arbitrary: acc) (simp_all add: segment_elements_push)
  then show ?thesis
    by (simp add: createFlowElements_def fold_push indexed_def)
qed

lemma image_row_shape:
  "\<exists>n1 n2. image_row fd segment ax y i img =
      ([n1, n2],
       [mk_edge (''add-image-'' @ seg_id segment) (node_id n1), mk_edge (node_id n1) (node_id n2)]) \<and>
     node_id n1 = ''image-'' @ seg_id segment @ ''-'' @ fi_id img \<and>
     node_type n1 = imageNode \<and>
     (node_type n2 = videoNode \<or> node_type n2 = addVideoNode)"
  by (simp add: image_row_def Let_def)

lemma row_rightward:
  "\<exists>n e. filter (\<lambda>n. node_type n = videoNode \<or> node_type n = addVideoNode)
            (fst (image_row fd segment ax y i img)) = [n] \<and>
         filter (\<lambda>e. edge_source e = ''image-'' @ seg_id segment @ ''-'' @ fi_id img)
            (snd (image_row fd segment ax y i img)) = [e] \<and>
         edge_target e = node_id n"
proof -
  obtain n1 n2 where row: "image_row fd segment ax y i img =
      ([n1, n2],
       [mk_edge (''add-image-'' @ seg_id segment) (node_id n1), mk_edge (node_id n1) (node_id n2)])"
    and id: "node_id n1 = ''image-'' @ seg_id segment @ ''-'' @ fi_id img"
    and t1: "node_type n1 = imageNode"
    and t2: "node_type n2 = videoNode \<or> node_type n2 = addVideoNode"
    using image_row_shape by blast
  show ?thesis
    unfolding row using t1 t2 by (auto simp: mk_edge_def id)
qed

lemma segment_graph_closed: "closed (segment_graph fd entry)"
proof -
  have rows: "\<And>r e. e \<in> set (snd (row_of fd entry r)) \<Longrightarrow>
      (edge_source e = ''add-image-'' @ seg_id (snd entry) \<or> edge_source e \<in> node_id ` set (fst (row_of fd entry r))) \<and>
      edge_target e \<in> node_id ` set (fst (row_of fd entry r))"
  proof -
    fix r e assume e: "e \<in> set (snd (row_of fd entry r))"
    obtain n1 n2 where row: "row_of fd entry r =
      ([n1, n2],
       [mk_edge (''add-image-'' @ seg_id (snd entry)) (node_id n1), mk_edge (node_id n1) (node_id n2)])"
      unfolding row_of_def using image_row_shape by blast
    from e show "(edge_source e = ''add-image-'' @ seg_id (snd entry) \<or> edge_source e \<in> node_id ` set (fst (row_of fd entry r))) \<and>
      edge_target e \<in> node_id ` set (fst (row_of fd entry r))"
      unfolding row by (auto simp: mk_edge_def)
  qed
  show ?thesis
    unfolding closed_def segment_graph_def segment_elements_eq
    using rows by (fastforce simp: mk_edge_def)
qed

lemma createFlowElements_closed: "closed (createFlowElements fd)"
  unfolding createFlowElements_eq closed_def
  using segment_graph_closed [unfolded closed_def] by fastforce

lemma row_in_graph:
  assumes "entry \<in> set (indexed (fd_segments fd))" and "r \<in> set (segment_rows fd (snd entry))"
  shows "set (fst (row_of fd entry r)) \<subseteq> set (fst (createFlowElements fd)) \<and>
         set (snd (row_of fd entry r)) \<subseteq> set (snd (createFlowElements fd))"
proof -
  have "set (fst (row_of fd entry r)) \<subseteq> set (fst (segment_graph fd entry)) \<and>
        set (snd (row_of fd entry r)) \<subseteq> set (snd (segment_graph fd entry))"
    unfolding segment_graph_def segment_elements_eq using assms(2) by auto
  with assms(1) show ?thesis
    unfolding createFlowElements_eq by auto
qed

text \<open>
  Claim C10. In the node and edge lists of \<open>createFlowElements\<close>, every edge's source
  and target are ids of nodes of the node list; and every image row of every segment is
  part of these lists, holds exactly one node that is a video node or an add-video
  placeholder, and has exactly one edge leaving its image node, which ends at that node.
\<close>

theorem graph_well_formed:
  "(\<forall>e\<in>set (snd (createFlowElements fd)).
      edge_source e \<in> node_id ` set (fst (createFlowElements fd)) \<and>
      edge_target e \<in> node_id ` set (fst (createFlowElements fd))) \<and>
   (\<forall>entry\<in>set (indexed (fd_segments fd)). \<forall>r\<in>set (segment_rows fd (snd entry)).
      set (fst (row_of fd entry r)) \<subseteq> set (fst (createFlowElements fd)) \<and>
      set (snd (row_of fd entry r)) \<subseteq> set (snd (createFlowElements fd)) \<and>
      (\<exists>n e. filter (\<lambda>n. node_type n = videoNode \<or> node_type n = addVideoNode)
                (fst (row_of fd entry r)) = [n] \<and>
             filter (\<lambda>e. edge_source e = ''image-'' @ seg_id (snd entry) @ ''-'' @ fi_id (snd r))
                (snd (row_of fd entry r)) = [e] \<and>
             edge_target e = node_id n))"
  using createFlowElements_closed [of fd, unfolded closed_def] row_in_graph [of _ fd]
    row_rightward [of fd]
  unfolding row_of_def by blast

theorem graph_well_formed_witness:
  "(0, ex_seg) \<in> set (indexed (fd_segments ex_fd)) \<and>
   (0, ex_img) \<in> set (segment_rows ex_fd ex_seg) \<and>
   mk_edge ''image-2-12'' ''add-video-2-12'' \<in> set (snd (createFlowElements ex_fd)) \<and>
   ''image-2-12'' \<in> node_id ` set (fst (createFlowElements ex_fd)) \<and>
   ''add-video-2-12'' \<in> node_id ` set (fst (createFlowElements ex_fd)) \<and>
   set (fst (row_of ex_fd (0, ex_seg) (0, ex_img))) \<subseteq> set (fst (createFlowElements ex_fd)) \<and>
   set (snd (row_of ex_fd (0, ex_seg) (0, ex_img))) \<subseteq> set (snd (createFlowElements ex_fd)) \<and>
   map node_type (fst (row_of ex_fd (0, ex_seg) (0, ex_img))) = [imageNode, addVideoNode] \<and>
   map edge_target (snd (row_of ex_fd (0, ex_seg) (0, ex_img))) = [''image-2-12'', ''add-video-2-12'']"
proof -
  have entry: "(0, ex_seg) \<in> set (indexed (fd_segments ex_fd))"
    by (simp add: indexed_def ex_fd_def)
  have r: "(0, ex_img) \<in> set (segment_rows ex_fd (snd (0::nat, ex_seg)))"
    by (simp add: segment_rows_def ex_fd_def ex_seg_def truthy_def cloudfront_def indexed_def)
  have row: "row_of ex_fd (0, ex_seg) (0, ex_img) =
     ([\<lparr>node_id = ''image-2-12'', node_type = imageNode, node_x = 490, node_y = 50,
        node_data = ImageData ''2'' (cloudfront ''b.png'') ''12'' True\<rparr>,
       \<lparr>node_id = ''add-video-2-12'', node_type = addVideoNode, node_x = 710, node_y = 50,
        node_data = AddVideoData ''2'' ''12''\<rparr>],
      [mk_edge ''add-image-2'' ''image-2-12'', mk_edge ''image-2-12'' ''add-video-2-12''])"
    by (simp add: row_of_def image_row_def Let_def ex_seg_def ex_img_def mk_image_def
        ex_raw_b_def primary_flag_def imageVideoUrl_def ex_fd_def truthy_def startX_def
        startY_def nodeSpacing_def rowSpacing_def segmentSpacing_def)
  note T = graph_well_formed [of ex_fd]
  from T entry r have sub:
    "set (fst (row_of ex_fd (0, ex_seg) (0, ex_img))) \<subseteq> set (fst (createFlowElements ex_fd))"
    "set (snd (row_of ex_fd (0, ex_seg) (0, ex_img))) \<subseteq> set (snd (createFlowElements ex_fd))"
    by blast+
  from sub(2) have e: "mk_edge ''image-2-12'' ''add-video-2-12'' \<in> set (snd (createFlowElements ex_fd))"
    unfolding row by simp
  with T have ends:
    "edge_source (mk_edge ''image-2-12'' ''add-video-2-12'') \<in> node_id ` set (fst (createFlowElements ex_fd))"
    "edge_target (mk_edge ''image-2-12'' ''add-video-2-12'') \<in> node_id ` set (fst (createFlowElements ex_fd))"
    by blast+
  have types: "map node_type (fst (row_of ex_fd (0, ex_seg) (0, ex_img))) = [imageNode, addVideoNode]"
    "map edge_target (snd (row_of ex_fd (0, ex_seg) (0, ex_img))) = [''image-2-12'', ''add-video-2-12'']"
    unfolding row by (simp_all add: mk_edge_def)
  from ends have ends': "''image-2-12'' \<in> node_id ` set (fst (createFlowElements ex_fd))"
    "''add-video-2-12'' \<in> node_id ` set (fst (createFlowElements ex_fd))"
    by (simp_all add: mk_edge_def)
  from entry r e ends' sub types show ?thesis by simp
qed

section \<open>Properties of the generation facade\<close>

lemma printable_space: "printable c \<Longrightarrow> js_space c \<longleftrightarrow> c = 0x20"
  unfolding printable_def js_space_def by (auto simp: word_le_nat_alt)

lemma printable_not_newline: "printable c \<Longrightarrow> \<not> newline c"
  unfolding printable_def newline_def by auto

lemma js_space_0x20: "js_space 0x20"
  by (simp add: js_space_def)

lemma printable_0x20: "printable 0x20"
  by (simp add: printable_def)

lemma replace_runs_none: "\<forall>c\<in>set s. \<not> p c \<Longrightarrow> replace_runs p b s = s"
  by (induction s arbitrary: b) auto

lemma replace_runs_set: "set (replace_runs p b s) \<subseteq> insert 0x20 (set s)"
  by (induction p b s rule: replace_runs.induct) auto

lemma replace_runs_no_adjacent:
  "p 0x20 \<Longrightarrow>
   no_adjacent p (replace_runs p b s) \<and>
   (b \<longrightarrow> replace_runs p b s = [] \<or> \<not> p (hd (replace_runs p b s)))"
proof (induction p b s rule: replace_runs.induct)
  case (1 p inrun)
  then show ?case by simp
next
  case (2 p inrun c cs)
  show ?case
  proof (cases "p c")
    case True
    with 2 have ih: "no_adjacent p (replace_runs p True cs)"
      "replace_runs p True cs = [] \<or> \<not> p (hd (replace_runs p True cs))"
      by (cases inrun; simp)+
    show ?thesis
    proof (cases inrun)
      case True
      with \<open>p c\<close> ih show ?thesis by simp
    next
      case False
      with \<open>p c\<close> ih show ?thesis
        by (cases "replace_runs p True cs") auto
    qed
  next
    case False
    with 2 have ih: "no_adjacent p (replace_runs p False cs)" by simp
    with False show ?thesis
      by (cases "replace_runs p False cs") auto
  qed
qed

lemma no_adjacent_nth:
  "no_adjacent p s \<Longrightarrow> Suc i < length s \<Longrightarrow> \<not> (p (s ! i) \<and> p (s ! Suc i))"
proof (induction p s arbitrary: i rule: no_adjacent.induct)
  case (3 p x y zs)
  then show ?case by (cases i) auto
qed simp_all

lemma rev_dropWhile_rev:
  "rev (dropWhile P (rev t)) = take (length t - length (takeWhile P (rev t))) t"
  by (simp add: dropWhile_eq_drop rev_drop)

lemma js_trim_window: "\<exists>j k. js_trim s = take k (drop j s)"
proof -
  have "dropWhile js_space s = drop (length (takeWhile js_space s)) s"
    by (simp add: dropWhile_eq_drop)
  then show ?thesis unfolding js_trim_def rev_dropWhile_rev by metis
qed

lemma window_no_adjacent:
  assumes "\<And>i. Suc i < length s \<Longrightarrow> \<not> (p (s ! i) \<and> p (s ! Suc i))"
    and "Suc i < length (take k (drop j s))"
  shows "\<not> (p (take k (drop j s) ! i) \<and> p (take k (drop j s) ! Suc i))"
proof -
  from assms(2) have "Suc i < k" "Suc (j + i) < length s" by auto
  with assms(1) [of "j + i"] show ?thesis by simp
qed

lemma js_trim_leading: "js_trim s = [] \<or> \<not> js_space (hd (js_trim s))"
proof -
  let ?t = "dropWhile js_space s"
  have t: "?t = [] \<or> \<not> js_space (hd ?t)"
    using hd_dropWhile [of js_space s] by blast
  have w: "js_trim s = take (length ?t - length (takeWhile js_space (rev ?t))) ?t"
    unfolding js_trim_def by (rule rev_dropWhile_rev)
  show ?thesis
  proof (cases "js_trim s = []")
    case False
    with w have "hd (js_trim s) = hd ?t" "?t \<noteq> []"
      by (metis hd_take take_eq_Nil gr0I take_Nil)+
    with t show ?thesis by auto
  qed simp
qed

lemma js_trim_trailing: "js_trim s = [] \<or> \<not> js_space (last (js_trim s))"
proof (cases "js_trim s = []")
  case False
  then have ne: "dropWhile js_space (rev (dropWhile js_space s)) \<noteq> []"
    by (simp add: js_trim_def)
  have "last (js_trim s) = hd (dropWhile js_space (rev (dropWhile js_space s)))"
    unfolding js_trim_def using ne by (simp add: last_rev)
  with ne show ?thesis using hd_dropWhile [OF ne] by simp
qed simp

lemma filtered_clean:
  "replace_runs newline False (filter printable s) = filter printable s"
  by (rule replace_runs_none) (simp add: printable_not_newline)

lemma collapsed_printable:
  "\<forall>c\<in>set (replace_runs js_space False (filter printable s)). printable c"
  using replace_runs_set [of js_space False "filter printable s"]
  by (auto simp: printable_0x20)

lemma collapsed_no_adjacent:
  "Suc i < length (replace_runs js_space False t) \<Longrightarrow>
   \<not> (js_space (replace_runs js_space False t ! i) \<and> js_space (replace_runs js_space False t ! Suc i))"
  using replace_runs_no_adjacent [of js_space False t] no_adjacent_nth js_space_0x20 by blast

lemma sanitisedPrompt_printable: "\<forall>c\<in>set (sanitisedPrompt v). printable c"
proof -
  obtain j k where "js_trim (replace_runs js_space False (filter printable (js_or v []))) =
      take k (drop j (replace_runs js_space False (filter printable (js_or v []))))"
    using js_trim_window by blast
  then have "set (sanitisedPrompt v) \<subseteq> set (replace_runs js_space False (filter printable (js_or v [])))"
    unfolding sanitisedPrompt_def filtered_clean
    by (metis set_take_subset set_drop_subset subset_trans)
  with collapsed_printable show ?thesis by blast
qed

lemma sanitisedPrompt_no_adjacent:
  assumes "Suc i < length (take n (sanitisedPrompt v))"
  shows "\<not> (js_space (take n (sanitisedPrompt v) ! i) \<and> js_space (take n (sanitisedPrompt v) ! Suc i))"
proof -
  let ?t = "replace_runs js_space False (filter printable (js_or v []))"
  obtain j k where w: "sanitisedPrompt v = take k (drop j ?t)"
    unfolding sanitisedPrompt_def filtered_clean using js_trim_window by blast
  have tk: "take n (sanitisedPrompt v) = take (min n k) (drop j ?t)"
    by (simp add: w)
  show ?thesis
    unfolding tk
    by (rule window_no_adjacent [where p = js_space and s = ?t])
      (use assms collapsed_no_adjacent in \<open>simp_all add: tk\<close>)
qed

text \<open>
  Claim C9, as amended. The visual prompt that \<open>generateImage\<close> sends is the sanitised
  text cut to 800 code units: it contains only printable ASCII (so no newline), no two
  neighbouring whitespace characters, no leading whitespace, and is at most 800 long,
  which is below the backend's 950; it has no trailing whitespace when the sanitised
  text was at most 800 long before the cut. \<open>generateVideo\<close> sends its animation prompt
  as it received it.
\<close>

theorem image_prompt_sanitised:
  "ip_visual_prompt (generateImage_payload req) = safePrompt (ir_visual_prompt req) \<and>
   (\<forall>c\<in>set (safePrompt (ir_visual_prompt req)). printable c \<and> \<not> newline c) \<and>
   (\<forall>i. Suc i < length (safePrompt (ir_visual_prompt req)) \<longrightarrow>
      \<not> (js_space (safePrompt (ir_visual_prompt req) ! i) \<and>
         js_space (safePrompt (ir_visual_prompt req) ! Suc i))) \<and>
   (safePrompt (ir_visual_prompt req) \<noteq> [] \<longrightarrow>
      \<not> js_space (hd (safePrompt (ir_visual_prompt req)))) \<and>
   length (safePrompt (ir_visual_prompt req)) \<le> MAX_PROMPT_LENGTH \<and>
   MAX_PROMPT_LENGTH < BACKEND_PROMPT_LIMIT \<and>
   (length (sanitisedPrompt (ir_visual_prompt req)) \<le> MAX_PROMPT_LENGTH \<longrightarrow>
    safePrompt (ir_visual_prompt req) \<noteq> [] \<longrightarrow>
      \<not> js_space (last (safePrompt (ir_visual_prompt req)))) \<and>
   vp_animation_prompt (generateVideo_payload vreq) = vr_animation_prompt vreq"
proof -
  let ?v = "ir_visual_prompt req"
  have payload: "ip_visual_prompt (generateImage_payload req) = safePrompt ?v"
    by (simp add: generateImage_payload_def)
  have chars: "\<forall>c\<in>set (safePrompt ?v). printable c \<and> \<not> newline c"
    unfolding safePrompt_def
    using sanitisedPrompt_printable [of ?v] printable_not_newline
    by (meson in_set_takeD)
  have runs: "\<forall>i. Suc i < length (safePrompt ?v) \<longrightarrow>
      \<not> (js_space (safePrompt ?v ! i) \<and> js_space (safePrompt ?v ! Suc i))"
    unfolding safePrompt_def using sanitisedPrompt_no_adjacent by blast
  have lead: "safePrompt ?v \<noteq> [] \<longrightarrow> \<not> js_space (hd (safePrompt ?v))"
  proof
    assume ne: "safePrompt ?v \<noteq> []"
    then have "sanitisedPrompt ?v \<noteq> []" and "hd (safePrompt ?v) = hd (sanitisedPrompt ?v)"
      unfolding safePrompt_def by (auto simp: MAX_PROMPT_LENGTH_def)
    then show "\<not> js_space (hd (safePrompt ?v))"
      using js_trim_leading unfolding sanitisedPrompt_def by metis
  qed
  have len: "length (safePrompt ?v) \<le> MAX_PROMPT_LENGTH"
    by (simp add: safePrompt_def)
  have limit: "MAX_PROMPT_LENGTH < BACKEND_PROMPT_LIMIT"
    by (simp add: MAX_PROMPT_LENGTH_def BACKEND_PROMPT_LIMIT_def)
  have trail: "length (sanitisedPrompt ?v) \<le> MAX_PROMPT_LENGTH \<longrightarrow> safePrompt ?v \<noteq> [] \<longrightarrow>
      \<not> js_space (last (safePrompt ?v))"
  proof (intro impI)
    assume "length (sanitisedPrompt ?v) \<le> MAX_PROMPT_LENGTH" and ne: "safePrompt ?v \<noteq> []"
    then have same: "safePrompt ?v = sanitisedPrompt ?v"
      by (simp add: safePrompt_def)
    with ne show "\<not> js_space (last (safePrompt ?v))"
      using js_trim_trailing unfolding same sanitisedPrompt_def by metis
  qed
  have video: "vp_animation_prompt (generateVideo_payload vreq) = vr_animation_prompt vreq"
    by (simp add: generateVideo_payload_def)
  from payload chars runs lead len limit trail video show ?thesis by blast
qed


theorem image_prompt_sanitised_witness:
  "safePrompt (ir_visual_prompt ex_image_request) = [0x61, 0x20, 0x62] \<and>
   ip_visual_prompt (generateImage_payload ex_image_request) = [0x61, 0x20, 0x62] \<and>
   printable (safePrompt (ir_visual_prompt ex_image_request) ! 1) \<and>
   Suc 0 < length (safePrompt (ir_visual_prompt ex_image_request)) \<and>
   \<not> (js_space (safePrompt (ir_visual_prompt ex_image_request) ! 0) \<and>
      js_space (safePrompt (ir_visual_prompt ex_image_request) ! Suc 0)) \<and>
   safePrompt (ir_visual_prompt ex_image_request) \<noteq> [] \<and>
   \<not> js_space (hd (safePrompt (ir_visual_prompt ex_image_request))) \<and>
   length (sanitisedPrompt (ir_visual_prompt ex_image_request)) \<le> MAX_PROMPT_LENGTH \<and>
   \<not> js_space (last (safePrompt (ir_visual_prompt ex_image_request))) \<and>
   vp_animation_prompt (generateVideo_payload ex_video_request) = Some [0x61, 0x0A, 0x62]"
proof -
  let ?p = "safePrompt (ir_visual_prompt ex_image_request)"
  have s: "sanitisedPrompt (ir_visual_prompt ex_image_request) = [0x61, 0x20, 0x62]"
    by (simp add: sanitisedPrompt_def ex_image_request_def js_or_def printable_def
        newline_def js_space_def js_trim_def)
  then have p: "?p = [0x61, 0x20, 0x62]"
    by (simp add: safePrompt_def MAX_PROMPT_LENGTH_def)
  have h1: "Suc 0 < length ?p" and h2: "?p \<noteq> []" and h4: "?p ! 1 \<in> set ?p"
    by (simp_all add: p)
  have h3: "length (sanitisedPrompt (ir_visual_prompt ex_image_request)) \<le> MAX_PROMPT_LENGTH"
    by (simp add: s MAX_PROMPT_LENGTH_def)
  note T = image_prompt_sanitised [of ex_image_request ex_video_request]
  from T h4 have c1: "printable (?p ! 1)" by blast
  from T h1 have c2: "\<not> (js_space (?p ! 0) \<and> js_space (?p ! Suc 0))" by blast
  from T h2 have c3: "\<not> js_space (hd ?p)" by blast
  from T h2 h3 have c4: "\<not> js_space (last ?p)" by blast
  from T have c5: "ip_visual_prompt (generateImage_payload ex_image_request) = ?p" by blast
  from T have c6: "vp_animation_prompt (generateVideo_payload ex_video_request) =
      vr_animation_prompt ex_video_request" by blast
  have v: "vr_animation_prompt ex_video_request = Some [0x61, 0x0A, 0x62]"
    by (simp add: ex_video_request_def)
  from p c1 h1 c2 h2 c3 h3 c4 c5 c6 v show ?thesis by simp
qed

text \<open>
  Claim C9 as stated fails: the animation prompt that \<open>generateVideo\<close> sends for
  \<open>a\<close>, newline, \<open>b\<close> still holds the newline; it is not the sanitised text.
\<close>

theorem video_prompt_counterexample:
  "vp_animation_prompt (generateVideo_payload ex_video_request) = Some [0x61, 0x0A, 0x62] \<and>
   newline ([0x61, 0x0A, 0x62] ! 1) \<and>
   safePrompt (vr_animation_prompt ex_video_request) = [0x61, 0x62] \<and>
   vp_animation_prompt (generateVideo_payload ex_video_request) \<noteq>
     Some (safePrompt (vr_animation_prompt ex_video_request))"
  by (simp add: generateVideo_payload_def ex_video_request_def newline_def safePrompt_def
      sanitisedPrompt_def js_or_def printable_def js_space_def js_trim_def MAX_PROMPT_LENGTH_def)

lemma replace_runs_clean_prefix:
  "\<forall>c\<in>set xs. \<not> p c \<Longrightarrow> xs \<noteq> [] \<or> \<not> b \<Longrightarrow>
   replace_runs p b (xs @ ys) = xs @ replace_runs p False ys"
proof (induction xs arbitrary: b)
  case Nil
  then show ?case by simp
next
  case (Cons x xs)
  then show ?case by simp
qed

lemma js_trim_id:
  "s \<noteq> [] \<Longrightarrow> \<not> js_space (hd s) \<Longrightarrow> \<not> js_space (last s) \<Longrightarrow> js_trim s = s"
proof -
  assume s: "s \<noteq> []" and h: "\<not> js_space (hd s)" and l: "\<not> js_space (last s)"
  from s h have a: "dropWhile js_space s = s" by (cases s) auto
  from s l have "dropWhile js_space (rev s) = rev s"
    by (cases "rev s") (auto simp: last_rev [symmetric] hd_rev)
  with a show ?thesis by (simp add: js_trim_def)
qed

lemma truncation_general:
  assumes len: "length A = 799" and all: "\<forall>c\<in>set A. c = 0x61"
  shows "safePrompt (Some (A @ [0x20, 0x62])) = A @ [0x20]"
proof -
  have ne: "A \<noteq> []" using len by auto
  have pr: "\<forall>c\<in>set A. printable c" and nsp: "\<forall>c\<in>set A. \<not> js_space c"
    using all by (auto simp: printable_def js_space_def)
  have f: "filter printable (A @ [0x20, 0x62]) = A @ [0x20, 0x62]"
    using pr by (simp add: printable_def)
  have n: "replace_runs newline False (A @ [0x20, 0x62]) = A @ [0x20, 0x62]"
    using filtered_clean [of "A @ [0x20, 0x62]"] unfolding f .
  have c: "replace_runs js_space False (A @ [0x20, 0x62]) = A @ [0x20, 0x62]"
    using nsp by (simp add: replace_runs_clean_prefix js_space_def)
  have hdA: "hd (A @ [0x20, 0x62]) \<in> set A" using ne by simp
  have t: "js_trim (A @ [0x20, 0x62]) = A @ [0x20, 0x62]"
    using hdA nsp by (intro js_trim_id) (auto simp: js_space_def)
  have o: "js_or (Some (A @ [0x20, 0x62])) [] = A @ [0x20, 0x62]"
    by (simp add: js_or_def)
  have "sanitisedPrompt (Some (A @ [0x20, 0x62])) = A @ [0x20, 0x62]"
    unfolding sanitisedPrompt_def o f n c t ..
  then show ?thesis
    by (simp add: safePrompt_def MAX_PROMPT_LENGTH_def len)
qed

text \<open>
  The cut to 800 code units comes after the trim, so a prompt whose 800th sanitised
  code unit is a space is sent with that space at its end.
\<close>

lemma truncation_leaves_trailing_space:
  "length (safePrompt (Some ex_long_prompt)) = 800 \<and>
   last (safePrompt (Some ex_long_prompt)) = 0x20 \<and>
   js_space (last (safePrompt (Some ex_long_prompt)))"
proof -
  have "safePrompt (Some ex_long_prompt) = replicate 799 0x61 @ [0x20]"
    unfolding ex_long_prompt_def by (rule truncation_general) simp_all
  then show ?thesis by (simp add: js_space_def)
qed

section \<open>Properties of fetching\<close>

text \<open>
  Claim C6, as amended. With a signed-in user and a selected project: when one of the
  three fetches rejects, the reconciled data \<open>allProjectData\<close> and \<open>projectData\<close> stay as
  they were and the one error \<open>Failed to fetch project data\<close> is reported; when all three
  resolve, a new view is installed whatever their \<open>success\<close> flags say: its segments are
  those of the first segmentation when that response reports success and \<open>[]\<close>
  otherwise, and its images and videos are the \<open>data\<close> of their responses.
\<close>

theorem refresh_all_or_nothing:
  assumes "fw_isAuthenticated s" and "truthy (fw_projectId s)"
  shows "(is_rejected segF \<or> is_rejected imgF \<or> is_rejected vidF \<longrightarrow>
            fw_allProjectData (refreshProjectData segF imgF vidF s) = fw_allProjectData s \<and>
            fw_projectData (refreshProjectData segF imgF vidF s) = fw_projectData s \<and>
            fw_error (refreshProjectData segF imgF vidF s) = Some ''Failed to fetch project data'') \<and>
         (fw_allProjectData
            (refreshProjectData (Resolved segmentationsData) (Resolved imagesData)
               (Resolved videosData) s) =
            \<lparr>apd_segments = first_segments segmentationsData,
             apd_images = data_or_empty imagesData,
             apd_videos = data_or_empty videosData\<rparr> \<and>
          fw_error
            (refreshProjectData (Resolved segmentationsData) (Resolved imagesData)
               (Resolved videosData) s) = fw_error s)"
  using assms
  by (auto simp: refreshProjectData_def is_rejected_def split: settled.splits)

theorem refresh_all_or_nothing_witness:
  "fw_isAuthenticated ex_flow_state \<and> truthy (fw_projectId ex_flow_state) \<and>
   is_rejected (Rejected ''timeout'' :: raw_image option api_response option settled) \<and>
   fw_allProjectData (refreshProjectData ex_seg_response (Rejected ''timeout'') ex_vid_response
      ex_flow_state) = fw_allProjectData ex_flow_state \<and>
   fw_error (refreshProjectData ex_seg_response (Rejected ''timeout'') ex_vid_response
      ex_flow_state) = Some ''Failed to fetch project data'' \<and>
   fw_allProjectData (refreshProjectData ex_seg_response ex_img_response ex_vid_response
      ex_flow_state) =
     \<lparr>apd_segments = [], apd_images = [Some ex_raw_a], apd_videos = []\<rparr>"
proof -
  have h: "fw_isAuthenticated ex_flow_state" "truthy (fw_projectId ex_flow_state)"
    by (simp_all add: ex_flow_state_def truthy_def)
  have r: "is_rejected (Rejected ''timeout'' :: raw_image option api_response option settled)"
    by (simp add: is_rejected_def)
  note T1 = refresh_all_or_nothing [OF h, where segF = ex_seg_response
      and imgF = "Rejected ''timeout''" and vidF = ex_vid_response]
  note T2 = refresh_all_or_nothing [OF h,
      where segmentationsData = "Some \<lparr>resp_success = False, resp_data = None\<rparr>"
      and imagesData = "Some \<lparr>resp_success = True, resp_data = Some [Some ex_raw_a]\<rparr>"
      and videosData = "Some \<lparr>resp_success = True, resp_data = Some []\<rparr>"]
  from T1 r have a: "fw_allProjectData (refreshProjectData ex_seg_response (Rejected ''timeout'')
      ex_vid_response ex_flow_state) = fw_allProjectData ex_flow_state"
    and b: "fw_error (refreshProjectData ex_seg_response (Rejected ''timeout'') ex_vid_response
      ex_flow_state) = Some ''Failed to fetch project data''"
    by blast+
  from T2 have c: "fw_allProjectData (refreshProjectData ex_seg_response ex_img_response
      ex_vid_response ex_flow_state) =
     \<lparr>apd_segments = [], apd_images = [Some ex_raw_a], apd_videos = []\<rparr>"
    by (simp add: ex_seg_response_def ex_img_response_def ex_vid_response_def first_segments_def
        data_or_empty_def)
  from h r a b c show ?thesis by blast
qed

text \<open>
  Claim C6 as stated fails: the segmentations fetch answers \<open>success = false\<close>, no error
  is reported, and the installed view is replaced by one that has the fetched images and
  no segments.
\<close>

theorem refresh_success_false_counterexample:
  "fw_allProjectData ex_loaded_state =
     \<lparr>apd_segments = [ex_raw_segment], apd_images = [Some ex_raw_b], apd_videos = []\<rparr> \<and>
   fw_allProjectData (refreshProjectData ex_seg_response ex_img_response ex_vid_response
      ex_loaded_state) =
     \<lparr>apd_segments = [], apd_images = [Some ex_raw_a], apd_videos = []\<rparr> \<and>
   fw_allProjectData (refreshProjectData ex_seg_response ex_img_response ex_vid_response
      ex_loaded_state) \<noteq> fw_allProjectData ex_loaded_state \<and>
   fw_error (refreshProjectData ex_seg_response ex_img_response ex_vid_response
      ex_loaded_state) = None"
  by (simp add: refreshProjectData_def ex_seg_response_def ex_img_response_def
      ex_vid_response_def ex_loaded_state_def ex_flow_state_def truthy_def first_segments_def
      data_or_empty_def)

section \<open>Properties of the generation handlers\<close>

lemma regenerate_image_guarded:
  "imageId \<in> regeneratingImages s \<Longrightarrow> handleRegenerateImage_begin imageId segmentData s = s"
  by (simp add: handleRegenerateImage_begin_def)

lemma regenerate_video_guarded:
  "videoId \<in> regeneratingVideos s \<Longrightarrow> handleRegenerateVideo_begin videoId segmentData s = s"
  by (simp add: handleRegenerateVideo_begin_def)

lemma create_video_guarded:
  "imageId \<in> creatingVideos s \<Longrightarrow>
   handleCreateNewVideo_begin segmentId imageId segmentData timestamp s = s"
  by (simp add: handleCreateNewVideo_begin_def)

lemma refreshProjectData_in_flight:
  "regeneratingImages (refreshProjectData a b c s) = regeneratingImages s \<and>
   regeneratingVideos (refreshProjectData a b c s) = regeneratingVideos s \<and>
   creatingImages (refreshProjectData a b c s) = creatingImages s \<and>
   creatingVideos (refreshProjectData a b c s) = creatingVideos s \<and>
   fw_calls (refreshProjectData a b c s) = fw_calls s"
  by (simp add: refreshProjectData_def split: settled.splits)

lemma regenerate_image_settled:
  "imageId \<notin> regeneratingImages (handleRegenerateImage_settle imageId segmentData r a b c s)"
  by (simp add: handleRegenerateImage_settle_def Let_def split: settled.splits)

lemma regenerate_video_settled:
  "videoId \<notin> regeneratingVideos (handleRegenerateVideo_settle videoId segmentData r a b c s)"
  by (simp add: handleRegenerateVideo_settle_def Let_def split: settled.splits)

lemma create_video_settled:
  "imageId \<notin> creatingVideos (handleCreateNewVideo_settle segmentId imageId r s)"
  by (simp add: handleCreateNewVideo_settle_def Let_def split: settled.splits)

lemma create_image_settled:
  "segmentId \<notin> creatingImages (handleCreateNewImage_settle segmentId r a b c s)"
  by (simp add: handleCreateNewImage_settle_def Let_def split: settled.splits)

text \<open>
  Claim C5 at \<open>handleCreateNewImage\<close>: the first invocation for segment \<open>2\<close> puts the
  key into \<open>creatingImages\<close> and launches a call; a second invocation for the same key,
  made while the key is still in the set, launches a second call.
\<close>

theorem create_image_twice:
  "''2'' \<in> creatingImages (handleCreateNewImage_begin ''2'' ex_segment_data ''1700'' ex_flow_state) \<and>
   fw_calls (handleCreateNewImage_begin ''2'' ex_segment_data ''1700'' ex_flow_state) =
     [GenerateImage ''seg-2-1700''] \<and>
   fw_calls (handleCreateNewImage_begin ''2'' ex_segment_data ''1701''
      (handleCreateNewImage_begin ''2'' ex_segment_data ''1700'' ex_flow_state)) =
     [GenerateImage ''seg-2-1700'', GenerateImage ''seg-2-1701'']"
  by (simp add: handleCreateNewImage_begin_def ex_flow_state_def truthy_def)

section \<open>Properties of the step workflow\<close>

text \<open>
  Claim C8, as amended. With a project selected, after the derived-status effect has run
  a selected concept gives step 1 the status done, and a selected script with a non-empty
  segment list gives step 3 the status done. Selecting a concept stores it, writes step 1
  done and moves to step 2, and step 1 is still done after the effect that the new
  selection triggers. Selecting a script stores it, writes step 3 done and moves to
  step 4; after the effect that the new selection triggers, with a project selected,
  step 3 is done when the script has a non-empty segment list and pending when it has
  none, and with no project selected it stays done.
\<close>

theorem step_advancement:
  "(selectedProject s \<noteq> None \<longrightarrow>
      (selectedConcept s \<noteq> None \<longrightarrow> stepStatus (stepStatusEffect s) 1 = Done) \<and>
      (\<forall>x segs. selectedScript s = Some x \<longrightarrow> sc_segments x = Some segs \<longrightarrow> segs \<noteq> [] \<longrightarrow>
         stepStatus (stepStatusEffect s) 3 = Done)) \<and>
   selectedConcept (handleConceptSelect c s) = Some c \<and>
   stepStatus (handleConceptSelect c s) 1 = Done \<and>
   currentStep (handleConceptSelect c s) = 2 \<and>
   stepStatus (stepStatusEffect (handleConceptSelect c s)) 1 = Done \<and>
   currentStep (stepStatusEffect (handleConceptSelect c s)) = 2 \<and>
   selectedScript (handleScriptSelect sc s) = Some sc \<and>
   stepStatus (handleScriptSelect sc s) 3 = Done \<and>
   currentStep (handleScriptSelect sc s) = 4 \<and>
   currentStep (stepStatusEffect (handleScriptSelect sc s)) = 4 \<and>
   (selectedProject s \<noteq> None \<longrightarrow>
      (\<forall>segs. sc_segments sc = Some segs \<longrightarrow> segs \<noteq> [] \<longrightarrow>
         stepStatus (stepStatusEffect (handleScriptSelect sc s)) 3 = Done) \<and>
      (sc_segments sc = Some [] \<or> sc_segments sc = None \<longrightarrow>
         stepStatus (stepStatusEffect (handleScriptSelect sc s)) 3 = Pending)) \<and>
   (selectedProject s = None \<longrightarrow>
      stepStatus (stepStatusEffect (handleScriptSelect sc s)) 3 = Done)"
  by (auto simp: stepStatusEffect_def done_if_def has_segments_def handleConceptSelect_def
      handleScriptSelect_def updateStepStatus_def)

theorem step_advancement_witness:
  "selectedProject ex_widget \<noteq> None \<and>
   selectedConcept ex_widget \<noteq> None \<and>
   stepStatus (stepStatusEffect ex_widget) 1 = Done \<and>
   selectedScript ex_widget = Some ex_script \<and>
   sc_segments ex_script = Some [ex_script_segment] \<and>
   [ex_script_segment] \<noteq> [] \<and>
   stepStatus (stepStatusEffect ex_widget) 3 = Done \<and>
   stepStatus (stepStatusEffect (handleConceptSelect \<lparr>cp_title = ''Cat''\<rparr> ex_widget)) 1 = Done \<and>
   currentStep (stepStatusEffect (handleConceptSelect \<lparr>cp_title = ''Cat''\<rparr> ex_widget)) = 2 \<and>
   stepStatus (handleScriptSelect ex_script ex_widget) 3 = Done \<and>
   currentStep (stepStatusEffect (handleScriptSelect ex_script ex_widget)) = 4 \<and>
   stepStatus (stepStatusEffect (handleScriptSelect ex_script ex_widget)) 3 = Done \<and>
   sc_segments ex_empty_script = Some [] \<and>
   stepStatus (stepStatusEffect (handleScriptSelect ex_empty_script ex_widget)) 3 = Pending \<and>
   selectedProject (ex_widget\<lparr>selectedProject := None\<rparr>) = None \<and>
   stepStatus (stepStatusEffect
      (handleScriptSelect ex_empty_script (ex_widget\<lparr>selectedProject := None\<rparr>))) 3 = Done"
proof -
  have h: "selectedProject ex_widget \<noteq> None" "selectedConcept ex_widget \<noteq> None"
    "selectedScript ex_widget = Some ex_script"
    by (simp_all add: ex_widget_def)
  have g: "sc_segments ex_script = Some [ex_script_segment]" "[ex_script_segment] \<noteq> []"
    and e: "sc_segments ex_empty_script = Some []"
    and n: "selectedProject (ex_widget\<lparr>selectedProject := None\<rparr>) = None"
    by (simp_all add: ex_script_def ex_empty_script_def)
  note T = step_advancement [of ex_widget "\<lparr>cp_title = ''Cat''\<rparr>" ex_script]
  note E = step_advancement [of ex_widget "\<lparr>cp_title = ''Cat''\<rparr>" ex_empty_script]
  note N = step_advancement [of "ex_widget\<lparr>selectedProject := None\<rparr>" "\<lparr>cp_title = ''Cat''\<rparr>"
      ex_empty_script]
  from T h have a: "stepStatus (stepStatusEffect ex_widget) 1 = Done" by blast
  from T h g have b: "stepStatus (stepStatusEffect ex_widget) 3 = Done" by blast
  from T have c:
    "stepStatus (stepStatusEffect (handleConceptSelect \<lparr>cp_title = ''Cat''\<rparr> ex_widget)) 1 = Done"
    "currentStep (stepStatusEffect (handleConceptSelect \<lparr>cp_title = ''Cat''\<rparr> ex_widget)) = 2"
    "stepStatus (handleScriptSelect ex_script ex_widget) 3 = Done"
    "currentStep (stepStatusEffect (handleScriptSelect ex_script ex_widget)) = 4"
    by blast+
  from T h g have d: "stepStatus (stepStatusEffect (handleScriptSelect ex_script ex_widget)) 3 = Done"
    by blast
  from E h e have f:
    "stepStatus (stepStatusEffect (handleScriptSelect ex_empty_script ex_widget)) 3 = Pending"
    by blast
  from N n have i: "stepStatus (stepStatusEffect
      (handleScriptSelect ex_empty_script (ex_widget\<lparr>selectedProject := None\<rparr>))) 3 = Done"
    by blast
  from h g e n a b c d f i show ?thesis by blast
qed

text \<open>
  Claim C8 as stated fails: selecting a script with an empty segment list, with a project
  selected, writes step 3 done, and the effect that the new selection triggers sets
  step 3 back to pending.
\<close>

theorem step_advancement_counterexample:
  "selectedProject ex_widget = Some ''p1'' \<and>
   selectedScript (handleScriptSelect ex_empty_script ex_widget) = Some ex_empty_script \<and>
   stepStatus (handleScriptSelect ex_empty_script ex_widget) 3 = Done \<and>
   stepStatus (stepStatusEffect (handleScriptSelect ex_empty_script ex_widget)) 3 = Pending \<and>
   stepStatus (stepStatusEffect (handleScriptSelect ex_empty_script ex_widget)) 3 \<noteq> Done"
  by (simp add: stepStatusEffect_def done_if_def has_segments_def handleScriptSelect_def
      updateStepStatus_def ex_widget_def ex_empty_script_def)

text \<open>
  Claim C7. \<open>runConceptWriter\<close> with a prompt that is empty after trimming launches no
  call and leaves every step status as it was. When the web-info call rejects, or it
  resolves and the concept call rejects, step 0 is set back to pending and the other
  statuses stay; the failure shows only in the error message and the request-failed
  notice. \<open>runScriptGeneration\<close> with a selected concept sets step 2 back to pending in
  the same way when one of its two requests rejects. A step status is always one of
  pending, loading and done.
\<close>

theorem generation_failure_reverts:
  "(js_trim (prompt s) = [] \<longrightarrow>
      calls (runConceptWriter webInfoResult conceptsResult s) = calls s \<and>
      stepStatus (runConceptWriter webInfoResult conceptsResult s) = stepStatus s) \<and>
   (js_trim (prompt s) \<noteq> [] \<longrightarrow>
    (webInfoResult = Rejected msg \<or>
     (webInfoResult = Resolved (content # rest) \<and> conceptsResult = Rejected msg)) \<longrightarrow>
      stepStatus (runConceptWriter webInfoResult conceptsResult s) = (stepStatus s)(0 := Pending) \<and>
      error (runConceptWriter webInfoResult conceptsResult s) =
        Some (message_or msg ''Failed to generate concepts. Please try again.'') \<and>
      creditDeductionMessage (runConceptWriter webInfoResult conceptsResult s) =
        Some (RequestFailed ''Concept Generation'') \<and>
      concepts (runConceptWriter webInfoResult conceptsResult s) = concepts s \<and>
      currentStep (runConceptWriter webInfoResult conceptsResult s) = currentStep s) \<and>
   (selectedConcept s \<noteq> None \<longrightarrow> (r1 = Rejected msg \<or> r2 = Rejected msg) \<longrightarrow>
      stepStatus (runScriptGeneration r1 r2 s) = (stepStatus s)(2 := Pending) \<and>
      error (runScriptGeneration r1 r2 s) \<noteq> None \<and>
      creditDeductionMessage (runScriptGeneration r1 r2 s) =
        Some (RequestFailed ''Script Generation'') \<and>
      scripts (runScriptGeneration r1 r2 s) = scripts s \<and>
      currentStep (runScriptGeneration r1 r2 s) = currentStep s) \<and>
   (status = Pending \<or> status = Loading \<or> status = Done)"
proof -
  have a: "js_trim (prompt s) = [] \<longrightarrow>
      calls (runConceptWriter webInfoResult conceptsResult s) = calls s \<and>
      stepStatus (runConceptWriter webInfoResult conceptsResult s) = stepStatus s"
    by (simp add: runConceptWriter_def)
  have failed0: "stepStatus (conceptWriter_failed m t) = (stepStatus t)(0 := Pending) \<and>
      error (conceptWriter_failed m t) =
        Some (message_or m ''Failed to generate concepts. Please try again.'') \<and>
      creditDeductionMessage (conceptWriter_failed m t) = Some (RequestFailed ''Concept Generation'') \<and>
      concepts (conceptWriter_failed m t) = concepts t \<and>
      currentStep (conceptWriter_failed m t) = currentStep t" for m t
    by (simp add: conceptWriter_failed_def updateStepStatus_def showRequestFailed_def)
  have b: "js_trim (prompt s) \<noteq> [] \<longrightarrow>
    (webInfoResult = Rejected msg \<or>
     (webInfoResult = Resolved (content # rest) \<and> conceptsResult = Rejected msg)) \<longrightarrow>
      stepStatus (runConceptWriter webInfoResult conceptsResult s) = (stepStatus s)(0 := Pending) \<and>
      error (runConceptWriter webInfoResult conceptsResult s) =
        Some (message_or msg ''Failed to generate concepts. Please try again.'') \<and>
      creditDeductionMessage (runConceptWriter webInfoResult conceptsResult s) =
        Some (RequestFailed ''Concept Generation'') \<and>
      concepts (runConceptWriter webInfoResult conceptsResult s) = concepts s \<and>
      currentStep (runConceptWriter webInfoResult conceptsResult s) = currentStep s"
    by (auto simp: runConceptWriter_def Let_def failed0 updateStepStatus_def)
  have failed2: "stepStatus (scriptGeneration_failed m t) = (stepStatus t)(2 := Pending) \<and>
      error (scriptGeneration_failed m t) \<noteq> None \<and>
      creditDeductionMessage (scriptGeneration_failed m t) = Some (RequestFailed ''Script Generation'') \<and>
      scripts (scriptGeneration_failed m t) = scripts t \<and>
      currentStep (scriptGeneration_failed m t) = currentStep t" for m t
    by (simp add: scriptGeneration_failed_def updateStepStatus_def showRequestFailed_def)
  have c: "selectedConcept s \<noteq> None \<longrightarrow> (r1 = Rejected msg \<or> r2 = Rejected msg) \<longrightarrow>
      stepStatus (runScriptGeneration r1 r2 s) = (stepStatus s)(2 := Pending) \<and>
      error (runScriptGeneration r1 r2 s) \<noteq> None \<and>
      creditDeductionMessage (runScriptGeneration r1 r2 s) =
        Some (RequestFailed ''Script Generation'') \<and>
      scripts (runScriptGeneration r1 r2 s) = scripts s \<and>
      currentStep (runScriptGeneration r1 r2 s) = currentStep s"
    by (auto simp: runScriptGeneration_def Let_def failed2 updateStepStatus_def
        simp del: not_None_eq split: settled.splits)
  have d: "status = Pending \<or> status = Loading \<or> status = Done"
    by (cases status) simp_all
  from a b c d show ?thesis by blast
qed

theorem generation_failure_reverts_witness:
  "js_trim (prompt (ex_widget\<lparr>prompt := [0x20]\<rparr>)) = [] \<and>
   calls (runConceptWriter (Rejected ''boom'') (Rejected ''boom'') (ex_widget\<lparr>prompt := [0x20]\<rparr>)) = [] \<and>
   js_trim (prompt ex_widget) \<noteq> [] \<and>
   stepStatus (runConceptWriter (Rejected ''boom'') (Rejected ''boom'') ex_widget) 0 = Pending \<and>
   error (runConceptWriter (Rejected ''boom'') (Rejected ''boom'') ex_widget) = Some ''boom'' \<and>
   stepStatus (runConceptWriter (Resolved [[0x63]]) (Rejected ''boom'') ex_widget) 0 = Pending \<and>
   calls (runConceptWriter (Resolved [[0x63]]) (Rejected ''boom'') ex_widget) =
     [WebInfoCall, ConceptsCall] \<and>
   selectedConcept ex_widget \<noteq> None \<and>
   stepStatus (runScriptGeneration (Resolved ex_script) (Rejected ''boom'') ex_widget) 2 = Pending \<and>
   error (runScriptGeneration (Resolved ex_script) (Rejected ''boom'') ex_widget) \<noteq> None"
proof -
  let ?e = "ex_widget\<lparr>prompt := [0x20]\<rparr>"
  have h1: "js_trim (prompt ?e) = []"
    by (simp add: js_trim_def js_space_def)
  have h2: "js_trim (prompt ex_widget) \<noteq> []"
    by (simp add: ex_widget_def js_trim_def js_space_def)
  have h3: "selectedConcept ex_widget \<noteq> None"
    by (simp add: ex_widget_def)
  note T1 = generation_failure_reverts [where s = ?e and webInfoResult = "Rejected ''boom''"
      and conceptsResult = "Rejected ''boom''"]
  note T2 = generation_failure_reverts [where s = ex_widget and webInfoResult = "Rejected ''boom''"
      and conceptsResult = "Rejected ''boom''" and msg = "''boom''"]
  note T3 = generation_failure_reverts [where s = ex_widget
      and webInfoResult = "Resolved [[0x63]]" and conceptsResult = "Rejected ''boom''"
      and msg = "''boom''" and content = "[0x63]" and rest = "[]"
      and ?r1.0 = "Resolved ex_script" and ?r2.0 = "Rejected ''boom''"]
  from T1 h1 have a: "calls (runConceptWriter (Rejected ''boom'') (Rejected ''boom'') ?e) = calls ?e"
    by blast
  from T2 h2 have b:
    "stepStatus (runConceptWriter (Rejected ''boom'') (Rejected ''boom'') ex_widget) =
       (stepStatus ex_widget)(0 := Pending)"
    "error (runConceptWriter (Rejected ''boom'') (Rejected ''boom'') ex_widget) =
       Some (message_or ''boom'' ''Failed to generate concepts. Please try again.'')"
    by blast+
  from T3 h2 have c:
    "stepStatus (runConceptWriter (Resolved [[0x63]]) (Rejected ''boom'') ex_widget) =
       (stepStatus ex_widget)(0 := Pending)"
    by blast
  from T3 h3 have d:
    "stepStatus (runScriptGeneration (Resolved ex_script) (Rejected ''boom'') ex_widget) =
       (stepStatus ex_widget)(2 := Pending)"
    "error (runScriptGeneration (Resolved ex_script) (Rejected ''boom'') ex_widget) \<noteq> None"
    by blast+
  have e: "calls (runConceptWriter (Resolved [[0x63]]) (Rejected ''boom'') ex_widget) =
     [WebInfoCall, ConceptsCall]"
    using h2 by (simp add: runConceptWriter_def Let_def conceptWriter_failed_def
        updateStepStatus_def showRequestFailed_def ex_widget_def)
  from h1 h2 h3 a b c d e show ?thesis
    by (simp add: message_or_def ex_widget_def)
qed

subsection \<open>Batch generation\<close>

lemma all_settled_iff: "all_settled n settledOrder \<longleftrightarrow> (\<forall>i<n. i \<in> set settledOrder)"
  by (auto simp: all_settled_def list_all_iff)

lemma settle_task_map:
  "map_of (bt_map (settle_task kind tasks outcome i b)) =
     (if i < length tasks then
        (case success_url (outcome i) of
           None \<Rightarrow> map_of (bt_map b)
         | Some url \<Rightarrow> (map_of (bt_map b))(ss_id (snd (tasks ! i)) \<mapsto> url))
      else map_of (bt_map b))"
  by (auto simp: settle_task_def Let_def success_url_def task_error_def update_conv'
      split: task_outcome.splits settled.splits)

lemma settle_task_keeps:
  "map_of (bt_map b) k \<noteq> None \<Longrightarrow> map_of (bt_map (settle_task kind tasks outcome i b)) k \<noteq> None"
  by (simp add: settle_task_map split: option.splits)

lemma fold_settle_keeps:
  "map_of (bt_map b) k \<noteq> None \<Longrightarrow>
   map_of (bt_map (fold (settle_task kind tasks outcome) settledOrder b)) k \<noteq> None"
proof (induction settledOrder arbitrary: b)
  case Nil
  then show ?case by simp
next
  case (Cons i settledOrder)
  from Cons.prems have "map_of (bt_map (settle_task kind tasks outcome i b)) k \<noteq> None"
    by (rule settle_task_keeps)
  then show ?case using Cons.IH by simp
qed

lemma fold_settle_records:
  assumes "i \<in> set settledOrder" and "i < length tasks" and "success_url (outcome i) = Some url"
  shows "map_of (bt_map (fold (settle_task kind tasks outcome) settledOrder b))
           (ss_id (snd (tasks ! i))) \<noteq> None"
  using assms(1)
proof (induction settledOrder arbitrary: b)
  case Nil
  then show ?case by simp
next
  case (Cons a settledOrder)
  show ?case
  proof (cases "a = i")
    case True
    have "map_of (bt_map (settle_task kind tasks outcome i b)) (ss_id (snd (tasks ! i))) \<noteq> None"
      using assms(2,3) by (simp add: settle_task_map)
    then show ?thesis using True by (simp add: fold_settle_keeps)
  next
    case False
    with Cons show ?thesis by simp
  qed
qed

lemma settle_task_recorded:
  "recorded tasks outcome b \<Longrightarrow> recorded tasks outcome (settle_task kind tasks outcome i b)"
  unfolding recorded_def settle_task_map
  by (auto split: option.splits if_splits)

lemma fold_settle_recorded:
  "recorded tasks outcome b \<Longrightarrow>
   recorded tasks outcome (fold (settle_task kind tasks outcome) settledOrder b)"
  by (induction settledOrder arbitrary: b) (simp_all add: settle_task_recorded)

lemma recorded_value:
  assumes "recorded tasks outcome b" and "distinct (map (\<lambda>t. ss_id (snd t)) tasks)"
    and "i < length tasks" and "success_url (outcome i) = Some url"
    and "map_of (bt_map b) (ss_id (snd (tasks ! i))) \<noteq> None"
  shows "map_of (bt_map b) (ss_id (snd (tasks ! i))) = Some url"
proof -
  from assms(5) obtain u where u: "map_of (bt_map b) (ss_id (snd (tasks ! i))) = Some u"
    by blast
  with assms(1) obtain i' where i': "i' < length tasks"
    "ss_id (snd (tasks ! i')) = ss_id (snd (tasks ! i))" "success_url (outcome i') = Some u"
    unfolding recorded_def by blast
  from i'(1,2) assms(2,3) have "i' = i"
    by (metis (mono_tags, lifting) length_map nth_eq_iff_index_eq nth_map)
  with i'(3) assms(4) u show ?thesis by simp
qed

lemma batch_result:
  assumes "i < length tasks" and "i \<in> set settledOrder" and "success_url (outcome i) = Some url"
  shows "map_of (bt_map (fold (settle_task kind tasks outcome) settledOrder
            \<lparr>bt_map = [], bt_segments = segments, bt_progress = p\<rparr>)) (ss_id (snd (tasks ! i))) \<noteq> None \<and>
         (distinct (map (\<lambda>t. ss_id (snd t)) tasks) \<longrightarrow>
          map_of (bt_map (fold (settle_task kind tasks outcome) settledOrder
            \<lparr>bt_map = [], bt_segments = segments, bt_progress = p\<rparr>)) (ss_id (snd (tasks ! i))) =
            Some url)"
proof -
  let ?b = "fold (settle_task kind tasks outcome) settledOrder
            \<lparr>bt_map = [], bt_segments = segments, bt_progress = p\<rparr>"
  have rec: "recorded tasks outcome ?b"
    by (rule fold_settle_recorded) (simp add: recorded_def)
  have dom: "map_of (bt_map ?b) (ss_id (snd (tasks ! i))) \<noteq> None"
    using assms by (simp add: fold_settle_records)
  with rec assms show ?thesis
    using recorded_value by blast
qed

lemma videos_settled_iff:
  "videos_settled images tasks settledOrder \<longleftrightarrow>
     (\<forall>i<length tasks. video_started images (tasks ! i) \<longrightarrow> i \<in> set settledOrder)"
  by (auto simp: videos_settled_def list_all_iff)

lemma settle_video_keeps:
  "map_of (bt_map b) k \<noteq> None \<Longrightarrow>
   map_of (bt_map (settle_video images tasks outcome i b)) k \<noteq> None"
  using settle_task_keeps [of b k "''video''" tasks outcome i]
  by (simp add: settle_video_def del: not_None_eq)

lemma fold_video_keeps:
  "map_of (bt_map b) k \<noteq> None \<Longrightarrow>
   map_of (bt_map (fold (settle_video images tasks outcome) settledOrder b)) k \<noteq> None"
proof (induction settledOrder arbitrary: b)
  case Nil
  then show ?case by simp
next
  case (Cons i settledOrder)
  from Cons.prems have "map_of (bt_map (settle_video images tasks outcome i b)) k \<noteq> None"
    by (rule settle_video_keeps)
  then show ?case using Cons.IH by simp
qed

lemma fold_video_records:
  assumes "i \<in> set settledOrder" and "i < length tasks" and "video_started images (tasks ! i)"
    and "success_url (outcome i) = Some url"
  shows "map_of (bt_map (fold (settle_video images tasks outcome) settledOrder b))
           (ss_id (snd (tasks ! i))) \<noteq> None"
  using assms(1)
proof (induction settledOrder arbitrary: b)
  case Nil
  then show ?case by simp
next
  case (Cons a settledOrder)
  show ?case
  proof (cases "a = i")
    case True
    have "map_of (bt_map (settle_video images tasks outcome i b)) (ss_id (snd (tasks ! i))) \<noteq> None"
      using assms(2,3,4) by (simp add: settle_video_def settle_task_map)
    then show ?thesis using True by (simp add: fold_video_keeps)
  next
    case False
    with Cons show ?thesis by simp
  qed
qed

lemma settle_video_recorded:
  "recorded tasks outcome b \<Longrightarrow> recorded tasks outcome (settle_video images tasks outcome i b)"
  by (simp add: settle_video_def settle_task_recorded)

lemma fold_video_recorded:
  "recorded tasks outcome b \<Longrightarrow>
   recorded tasks outcome (fold (settle_video images tasks outcome) settledOrder b)"
  by (induction settledOrder arbitrary: b) (simp_all add: settle_video_recorded)

lemma video_result:
  assumes "i < length tasks" and "i \<in> set settledOrder" and "video_started images (tasks ! i)"
    and "success_url (outcome i) = Some url"
  shows "map_of (bt_map (fold (settle_video images tasks outcome) settledOrder
            \<lparr>bt_map = [], bt_segments = segments, bt_progress = p\<rparr>)) (ss_id (snd (tasks ! i))) \<noteq> None \<and>
         (distinct (map (\<lambda>t. ss_id (snd t)) tasks) \<longrightarrow>
          map_of (bt_map (fold (settle_video images tasks outcome) settledOrder
            \<lparr>bt_map = [], bt_segments = segments, bt_progress = p\<rparr>)) (ss_id (snd (tasks ! i))) =
            Some url)"
proof -
  let ?b = "fold (settle_video images tasks outcome) settledOrder
            \<lparr>bt_map = [], bt_segments = segments, bt_progress = p\<rparr>"
  have rec: "recorded tasks outcome ?b"
    by (rule fold_video_recorded) (simp add: recorded_def)
  have dom: "map_of (bt_map ?b) (ss_id (snd (tasks ! i))) \<noteq> None"
    using assms by (simp add: fold_video_records)
  with rec assms show ?thesis
    using recorded_value by blast
qed

lemma image_batch:
  assumes "selectedScript s = Some script" and "sc_segments script = Some segments"
    and "segmentsToGenerate segments \<noteq> []"
  shows "(runImageGeneration outcome settledOrder s \<noteq> None \<longleftrightarrow>
            all_settled (length (segmentsToGenerate segments)) settledOrder) \<and>
         (\<forall>s'. runImageGeneration outcome settledOrder s = Some s' \<longrightarrow>
            stepStatus s' 4 = Done \<and>
            calls s' = calls s @ map (\<lambda>t. ImageCall (ss_id (snd t))) (segmentsToGenerate segments) \<and>
            generatedImages s' =
              bt_map (fold (settle_task ''image'' (segmentsToGenerate segments) outcome) settledOrder
                \<lparr>bt_map = [], bt_segments = segments,
                 bt_progress = launch_progress ''image'' (segmentsToGenerate segments)\<rparr>))"
  using assms
  by (auto simp: runImageGeneration_def Let_def updateStepStatus_def showCreditDeduction_def)

lemma video_batch:
  assumes "generatedImages s \<noteq> []" and "selectedScript s = Some script"
    and "sc_segments script = Some segments"
  shows "(runVideoGeneration outcome settledOrder s \<noteq> None \<longleftrightarrow>
            videos_settled (generatedImages s) (validSegments (generatedImages s) segments)
              settledOrder) \<and>
         (\<forall>s'. runVideoGeneration outcome settledOrder s = Some s' \<longrightarrow>
            stepStatus s' 5 = Done \<and>
            calls s' = calls s @
              map (\<lambda>t. VideoCall (ss_id (snd t)))
                (filter (video_started (generatedImages s))
                   (validSegments (generatedImages s) segments)) \<and>
            generatedVideos s' =
              bt_map (fold (settle_video (generatedImages s)
                  (validSegments (generatedImages s) segments) outcome) settledOrder
                \<lparr>bt_map = [], bt_segments = segments,
                 bt_progress = launch_video_progress (generatedImages s)
                   (validSegments (generatedImages s) segments)\<rparr>))"
  using assms
  by (auto simp: runVideoGeneration_def Let_def updateStepStatus_def showCreditDeduction_def)

lemma effect_keeps_images_done:
  "stepStatus s 4 = Done \<Longrightarrow> generatedImages s \<noteq> [] \<Longrightarrow> stepStatus (stepStatusEffect s) 4 = Done"
  by (simp add: stepStatusEffect_def hasImages_def done_if_def)

lemma effect_keeps_videos_done:
  "stepStatus s 5 = Done \<Longrightarrow> generatedVideos s \<noteq> [] \<Longrightarrow> stepStatus (stepStatusEffect s) 5 = Done"
  by (simp add: stepStatusEffect_def hasVideos_def done_if_def)

lemma map_of_nonempty: "map_of xs k \<noteq> None \<Longrightarrow> xs \<noteq> []"
  by auto

text \<open>
  Claim C4. For a selected script with a segment list, \<open>runImageGeneration\<close> over its
  tasks (non-empty) and \<open>runVideoGeneration\<close> over its tasks (with some generated image)
  return exactly when every task that launched a call has settled; an image task always
  launches its call, a video task launches it when its matching image key is truthy.
  In the returned state the step (4 or 5) is done and the calls launched are those of
  these tasks; every such task that succeeded has its segment's key in the generated
  map, whatever the other tasks did and in whatever order the tasks settled, with its own
  URL when the tasks' segment ids are distinct; and then the step is still done after the
  derived-status effect.
\<close>

theorem batch_settle_all:
  assumes "selectedScript s = Some script" and "sc_segments script = Some segments"
  shows "(image_tasks s \<noteq> [] \<longrightarrow>
            (runImageGeneration outcome settledOrder s \<noteq> None \<longleftrightarrow>
               (\<forall>i<length (image_tasks s). i \<in> set settledOrder)) \<and>
            (\<forall>s'. runImageGeneration outcome settledOrder s = Some s' \<longrightarrow>
               stepStatus s' 4 = Done \<and>
               calls s' = calls s @ map (\<lambda>t. ImageCall (ss_id (snd t))) (image_tasks s) \<and>
               (\<forall>i<length (image_tasks s). \<forall>url. success_url (outcome i) = Some url \<longrightarrow>
                  map_of (generatedImages s') (ss_id (snd (image_tasks s ! i))) \<noteq> None \<and>
                  (distinct (map (\<lambda>t. ss_id (snd t)) (image_tasks s)) \<longrightarrow>
                   map_of (generatedImages s') (ss_id (snd (image_tasks s ! i))) = Some url) \<and>
                  stepStatus (stepStatusEffect s') 4 = Done))) \<and>
         (generatedImages s \<noteq> [] \<longrightarrow>
            (runVideoGeneration outcome settledOrder s \<noteq> None \<longleftrightarrow>
               (\<forall>i<length (video_tasks s).
                  video_started (generatedImages s) (video_tasks s ! i) \<longrightarrow> i \<in> set settledOrder)) \<and>
            (\<forall>s'. runVideoGeneration outcome settledOrder s = Some s' \<longrightarrow>
               stepStatus s' 5 = Done \<and>
               calls s' = calls s @
                 map (\<lambda>t. VideoCall (ss_id (snd t)))
                   (filter (video_started (generatedImages s)) (video_tasks s)) \<and>
               (\<forall>i<length (video_tasks s). \<forall>url.
                  video_started (generatedImages s) (video_tasks s ! i) \<longrightarrow>
                  success_url (outcome i) = Some url \<longrightarrow>
                  map_of (generatedVideos s') (ss_id (snd (video_tasks s ! i))) \<noteq> None \<and>
                  (distinct (map (\<lambda>t. ss_id (snd t)) (video_tasks s)) \<longrightarrow>
                   map_of (generatedVideos s') (ss_id (snd (video_tasks s ! i))) = Some url) \<and>
                  stepStatus (stepStatusEffect s') 5 = Done)))"
proof (intro conjI impI)
  have it: "image_tasks s = segmentsToGenerate segments"
    using assms by (simp add: image_tasks_def)
  assume ne: "image_tasks s \<noteq> []"
  note B = image_batch [OF assms, of outcome settledOrder, folded it, OF ne]
  show "runImageGeneration outcome settledOrder s \<noteq> None \<longleftrightarrow>
      (\<forall>i<length (image_tasks s). i \<in> set settledOrder)"
    using B by (simp add: all_settled_iff)
  show "\<forall>s'. runImageGeneration outcome settledOrder s = Some s' \<longrightarrow>
      stepStatus s' 4 = Done \<and>
      calls s' = calls s @ map (\<lambda>t. ImageCall (ss_id (snd t))) (image_tasks s) \<and>
      (\<forall>i<length (image_tasks s). \<forall>url. success_url (outcome i) = Some url \<longrightarrow>
         map_of (generatedImages s') (ss_id (snd (image_tasks s ! i))) \<noteq> None \<and>
         (distinct (map (\<lambda>t. ss_id (snd t)) (image_tasks s)) \<longrightarrow>
          map_of (generatedImages s') (ss_id (snd (image_tasks s ! i))) = Some url) \<and>
         stepStatus (stepStatusEffect s') 4 = Done)"
  proof (intro allI impI conjI)
    fix s' assume run: "runImageGeneration outcome settledOrder s = Some s'"
    from B run show d: "stepStatus s' 4 = Done" by blast
    from B run show "calls s' = calls s @ map (\<lambda>t. ImageCall (ss_id (snd t))) (image_tasks s)"
      by blast
    from B run have settled: "\<forall>i<length (image_tasks s). i \<in> set settledOrder"
      by (simp add: all_settled_iff)
    from B run have gi: "generatedImages s' =
        bt_map (fold (settle_task ''image'' (image_tasks s) outcome) settledOrder
          \<lparr>bt_map = [], bt_segments = segments,
           bt_progress = launch_progress ''image'' (image_tasks s)\<rparr>)"
      by blast
    fix i url assume i: "i < length (image_tasks s)" and u: "success_url (outcome i) = Some url"
    from settled i have mem: "i \<in> set settledOrder" by blast
    note R = batch_result [where tasks = "image_tasks s" and i = i and outcome = outcome
        and settledOrder = settledOrder and url = url and kind = "''image''"
        and segments = segments and p = "launch_progress ''image'' (image_tasks s)",
        OF i mem u, folded gi]
    from R show dom: "map_of (generatedImages s') (ss_id (snd (image_tasks s ! i))) \<noteq> None"
      by blast
    from dom have "generatedImages s' \<noteq> []" by (rule map_of_nonempty)
    with d show "stepStatus (stepStatusEffect s') 4 = Done"
      by (rule effect_keeps_images_done)
    assume "distinct (map (\<lambda>t. ss_id (snd t)) (image_tasks s))"
    with R show "map_of (generatedImages s') (ss_id (snd (image_tasks s ! i))) = Some url"
      by blast
  qed
next
  have vt: "video_tasks s = validSegments (generatedImages s) segments"
    using assms by (simp add: video_tasks_def)
  assume ne: "generatedImages s \<noteq> []"
  note B = video_batch [OF ne assms, of outcome settledOrder, folded vt]
  show "runVideoGeneration outcome settledOrder s \<noteq> None \<longleftrightarrow>
      (\<forall>i<length (video_tasks s).
         video_started (generatedImages s) (video_tasks s ! i) \<longrightarrow> i \<in> set settledOrder)"
    using B by (simp add: videos_settled_iff)
  show "\<forall>s'. runVideoGeneration outcome settledOrder s = Some s' \<longrightarrow>
      stepStatus s' 5 = Done \<and>
      calls s' = calls s @
        map (\<lambda>t. VideoCall (ss_id (snd t)))
          (filter (video_started (generatedImages s)) (video_tasks s)) \<and>
      (\<forall>i<length (video_tasks s). \<forall>url.
         video_started (generatedImages s) (video_tasks s ! i) \<longrightarrow>
         success_url (outcome i) = Some url \<longrightarrow>
         map_of (generatedVideos s') (ss_id (snd (video_tasks s ! i))) \<noteq> None \<and>
         (distinct (map (\<lambda>t. ss_id (snd t)) (video_tasks s)) \<longrightarrow>
          map_of (generatedVideos s') (ss_id (snd (video_tasks s ! i))) = Some url) \<and>
         stepStatus (stepStatusEffect s') 5 = Done)"
  proof (intro allI impI conjI)
    fix s' assume run: "runVideoGeneration outcome settledOrder s = Some s'"
    from B run show d: "stepStatus s' 5 = Done" by blast
    from B run show "calls s' = calls s @
        map (\<lambda>t. VideoCall (ss_id (snd t)))
          (filter (video_started (generatedImages s)) (video_tasks s))"
      by blast
    from B run have settled: "\<forall>i<length (video_tasks s).
        video_started (generatedImages s) (video_tasks s ! i) \<longrightarrow> i \<in> set settledOrder"
      by (simp add: videos_settled_iff)
    from B run have gv: "generatedVideos s' =
        bt_map (fold (settle_video (generatedImages s) (video_tasks s) outcome) settledOrder
          \<lparr>bt_map = [], bt_segments = segments,
           bt_progress = launch_video_progress (generatedImages s) (video_tasks s)\<rparr>)"
      by blast
    fix i url assume i: "i < length (video_tasks s)"
      and st: "video_started (generatedImages s) (video_tasks s ! i)"
      and u: "success_url (outcome i) = Some url"
    from settled i st have mem: "i \<in> set settledOrder" by blast
    note R = video_result [where tasks = "video_tasks s" and i = i and outcome = outcome
        and settledOrder = settledOrder and url = url and images = "generatedImages s"
        and segments = segments
        and p = "launch_video_progress (generatedImages s) (video_tasks s)",
        OF i mem st u, folded gv]
    from R show dom: "map_of (generatedVideos s') (ss_id (snd (video_tasks s ! i))) \<noteq> None"
      by blast
    from dom have "generatedVideos s' \<noteq> []" by (rule map_of_nonempty)
    with d show "stepStatus (stepStatusEffect s') 5 = Done"
      by (rule effect_keeps_videos_done)
    assume "distinct (map (\<lambda>t. ss_id (snd t)) (video_tasks s))"
    with R show "map_of (generatedVideos s') (ss_id (snd (video_tasks s ! i))) = Some url"
      by blast
  qed
qed

theorem batch_settle_all_witness:
  "selectedScript ex_batch_widget = Some ex_batch_script \<and>
   sc_segments ex_batch_script = Some [ex_script_segment, ex_script_segment\<lparr>ss_id := ''2''\<rparr>] \<and>
   image_tasks ex_batch_widget = [(0, ex_script_segment), (1, ex_script_segment\<lparr>ss_id := ''2''\<rparr>)] \<and>
   success_url (ex_outcome 0) = None \<and>
   success_url (ex_outcome 1) = Some ''url2'' \<and>
   runImageGeneration ex_outcome [1] ex_batch_widget = None \<and>
   (\<exists>s'. runImageGeneration ex_outcome [1, 0] ex_batch_widget = Some s' \<and>
         stepStatus s' 4 = Done \<and>
         calls s' = [ImageCall ''1'', ImageCall ''2''] \<and>
         map_of (generatedImages s') ''2'' = Some ''url2'' \<and>
         stepStatus (stepStatusEffect s') 4 = Done) \<and>
   generatedImages ex_video_widget \<noteq> [] \<and>
   video_tasks ex_video_widget = [(0, ex_script_segment), (1, ex_script_segment\<lparr>ss_id := ''2''\<rparr>)] \<and>
   video_started (generatedImages ex_video_widget) (0, ex_script_segment) \<and>
   video_started (generatedImages ex_video_widget) (1, ex_script_segment\<lparr>ss_id := ''2''\<rparr>) \<and>
   runVideoGeneration ex_outcome [0] ex_video_widget = None \<and>
   (\<exists>s'. runVideoGeneration ex_outcome [0, 1] ex_video_widget = Some s' \<and>
         stepStatus s' 5 = Done \<and>
         calls s' = [VideoCall ''1'', VideoCall ''2''] \<and>
         map_of (generatedVideos s') ''2'' = Some ''url2'' \<and>
         stepStatus (stepStatusEffect s') 5 = Done) \<and>
   generatedImages ex_skip_widget \<noteq> [] \<and>
   video_tasks ex_skip_widget = [(0, ex_script_segment\<lparr>ss_id := []\<rparr>)] \<and>
   \<not> video_started (generatedImages ex_skip_widget) (0, ex_script_segment\<lparr>ss_id := []\<rparr>) \<and>
   (\<exists>s'. runVideoGeneration ex_outcome [] ex_skip_widget = Some s' \<and>
         stepStatus s' 5 = Done \<and>
         calls s' = [])"
proof -
  let ?two = "[(0::nat, ex_script_segment), (1, ex_script_segment\<lparr>ss_id := ''2''\<rparr>)]"
  let ?one = "[(0::nat, ex_script_segment\<lparr>ss_id := []\<rparr>)]"
  let ?sk = "\<lparr>sc_segments = Some [ex_script_segment\<lparr>ss_id := []\<rparr>], sc_artStyle = None\<rparr>"
  have h1: "selectedScript ex_batch_widget = Some ex_batch_script"
    and h2: "sc_segments ex_batch_script =
      Some [ex_script_segment, ex_script_segment\<lparr>ss_id := ''2''\<rparr>]"
    and h3: "selectedScript ex_video_widget = Some ex_batch_script"
    and h4: "generatedImages ex_video_widget \<noteq> []"
    and h5: "selectedScript ex_skip_widget = Some ?sk"
    and h6: "sc_segments ?sk = Some [ex_script_segment\<lparr>ss_id := []\<rparr>]"
    and h7: "generatedImages ex_skip_widget \<noteq> []"
    and c0: "calls ex_batch_widget = []" "calls ex_video_widget = []" "calls ex_skip_widget = []"
    by (simp_all add: ex_batch_widget_def ex_batch_script_def ex_video_widget_def
        ex_skip_widget_def ex_widget_def)
  have vis: "has_visual ex_script_segment" "has_visual (ex_script_segment\<lparr>ss_id := ''2''\<rparr>)"
    by (simp_all add: has_visual_def ex_script_segment_def js_trim_def js_space_def)
  have it: "image_tasks ex_batch_widget = ?two"
    by (simp add: image_tasks_def h1 h2 segmentsToGenerate_def indexed_def vis)
  have gi: "generatedImages ex_video_widget = [(''1'', ''img1''), (''2'', ''img2'')]"
    "generatedImages ex_skip_widget = [([], ''img'')]"
    by (simp_all add: ex_video_widget_def ex_skip_widget_def)
  have vt: "video_tasks ex_video_widget = ?two"
    by (simp add: video_tasks_def h3 h2 gi validSegments_def indexed_def segmentIdVariants_def
        has_image_def key_of_def ex_script_segment_def truthy_def)
  have st: "video_started (generatedImages ex_video_widget) (0, ex_script_segment)"
    "video_started (generatedImages ex_video_widget) (1, ex_script_segment\<lparr>ss_id := ''2''\<rparr>)"
    by (simp_all add: video_started_def matchingImageKey_def gi segmentIdVariants_def
        has_image_def key_of_def ex_script_segment_def truthy_def)
  have sk: "video_tasks ex_skip_widget = ?one"
    by (simp add: video_tasks_def h5 gi validSegments_def indexed_def segmentIdVariants_def
        has_image_def key_of_def ex_script_segment_def truthy_def)
  have nst: "\<not> video_started (generatedImages ex_skip_widget) (0, ex_script_segment\<lparr>ss_id := []\<rparr>)"
    by (simp add: video_started_def matchingImageKey_def gi segmentIdVariants_def
        has_image_def key_of_def ex_script_segment_def truthy_def)
  have o: "success_url (ex_outcome 0) = None" "success_url (ex_outcome 1) = Some ''url2''"
    by (simp_all add: success_url_def ex_outcome_def truthy_def)
  have ids: "distinct (map (\<lambda>t. ss_id (snd t)) ?two)"
    by (simp add: ex_script_segment_def)
  have part: "\<not> (\<forall>i<length ?two. i \<in> set [1::nat])"
    by auto
  have full: "\<forall>i<length ?two. i \<in> set [1::nat, 0]"
    by (auto simp: less_Suc_eq)
  have vpart: "\<not> (\<forall>i<length ?two.
      video_started (generatedImages ex_video_widget) (?two ! i) \<longrightarrow> i \<in> set [0::nat])"
  proof
    assume "\<forall>i<length ?two.
      video_started (generatedImages ex_video_widget) (?two ! i) \<longrightarrow> i \<in> set [0::nat]"
    then have "1 < length ?two \<longrightarrow>
        video_started (generatedImages ex_video_widget) (?two ! 1) \<longrightarrow> 1 \<in> set [0::nat]"
      by blast
    with st(2) show False by simp
  qed
  have vfull: "\<forall>i<length ?two.
      video_started (generatedImages ex_video_widget) (?two ! i) \<longrightarrow> i \<in> set [0::nat, 1]"
    by (auto simp: less_Suc_eq)
  have sfull: "\<forall>i<length ?one.
      video_started (generatedImages ex_skip_widget) (?one ! i) \<longrightarrow> i \<in> set ([]::nat list)"
    using nst by simp
  have ne: "image_tasks ex_batch_widget \<noteq> []"
    by (simp add: it)
  note I1 = batch_settle_all [OF h1 h2, where outcome = ex_outcome and settledOrder = "[1]"]
  note I2 = batch_settle_all [OF h1 h2, where outcome = ex_outcome and settledOrder = "[1, 0]"]
  note V1 = batch_settle_all [OF h3 h2, where outcome = ex_outcome and settledOrder = "[0]"]
  note V2 = batch_settle_all [OF h3 h2, where outcome = ex_outcome and settledOrder = "[0, 1]"]
  note S1 = batch_settle_all [OF h5 h6, where outcome = ex_outcome and settledOrder = "[]"]
  from I1 ne part have a: "runImageGeneration ex_outcome [1] ex_batch_widget = None"
    unfolding it by blast
  from I2 ne full obtain s' where s': "runImageGeneration ex_outcome [1, 0] ex_batch_widget = Some s'"
    unfolding it by blast
  have l1: "1 < length ?two"
    by simp
  from I2 ne s' have I3: "stepStatus s' 4 = Done"
    "\<forall>i<length ?two. \<forall>url. success_url (ex_outcome i) = Some url \<longrightarrow>
       map_of (generatedImages s') (ss_id (snd (?two ! i))) \<noteq> None \<and>
       (distinct (map (\<lambda>t. ss_id (snd t)) ?two) \<longrightarrow>
        map_of (generatedImages s') (ss_id (snd (?two ! i))) = Some url) \<and>
       stepStatus (stepStatusEffect s') 4 = Done"
    unfolding it by blast+
  from I3(2) l1 o(2) ids have b: "stepStatus s' 4 = Done"
    "map_of (generatedImages s') (ss_id (snd (?two ! 1))) = Some ''url2''"
    "stepStatus (stepStatusEffect s') 4 = Done"
    using I3(1) by blast+
  from I2 ne s' have bc: "calls s' = calls ex_batch_widget @ map (\<lambda>t. ImageCall (ss_id (snd t))) ?two"
    unfolding it by blast
  from V1 h4 vpart have c: "runVideoGeneration ex_outcome [0] ex_video_widget = None"
    unfolding vt by blast
  from V2 h4 vfull obtain v' where v': "runVideoGeneration ex_outcome [0, 1] ex_video_widget = Some v'"
    unfolding vt by blast
  have st1: "video_started (generatedImages ex_video_widget) (?two ! 1)"
    using st(2) by simp
  from V2 h4 v' have V3: "stepStatus v' 5 = Done"
    "\<forall>i<length ?two. \<forall>url.
       video_started (generatedImages ex_video_widget) (?two ! i) \<longrightarrow>
       success_url (ex_outcome i) = Some url \<longrightarrow>
       map_of (generatedVideos v') (ss_id (snd (?two ! i))) \<noteq> None \<and>
       (distinct (map (\<lambda>t. ss_id (snd t)) ?two) \<longrightarrow>
        map_of (generatedVideos v') (ss_id (snd (?two ! i))) = Some url) \<and>
       stepStatus (stepStatusEffect v') 5 = Done"
    unfolding vt by blast+
  from V3(2) l1 st1 o(2) ids have d: "stepStatus v' 5 = Done"
    "map_of (generatedVideos v') (ss_id (snd (?two ! 1))) = Some ''url2''"
    "stepStatus (stepStatusEffect v') 5 = Done"
    using V3(1) by blast+
  from V2 h4 v' have dc: "calls v' = calls ex_video_widget @
      map (\<lambda>t. VideoCall (ss_id (snd t))) (filter (video_started (generatedImages ex_video_widget)) ?two)"
    unfolding vt by blast
  from S1 h7 sfull obtain k' where k': "runVideoGeneration ex_outcome [] ex_skip_widget = Some k'"
    unfolding sk by blast
  from S1 h7 k' have e: "stepStatus k' 5 = Done"
    "calls k' = calls ex_skip_widget @
      map (\<lambda>t. VideoCall (ss_id (snd t))) (filter (video_started (generatedImages ex_skip_widget)) ?one)"
    unfolding sk by blast+
  have key: "ss_id (snd (?two ! 1)) = ''2''"
    by simp
  have bc': "calls s' = [ImageCall ''1'', ImageCall ''2'']"
    by (simp add: bc c0 ex_script_segment_def)
  have flt: "filter (video_started (generatedImages ex_video_widget)) ?two = ?two"
    using st by simp
  have dc': "calls v' = [VideoCall ''1'', VideoCall ''2'']"
    unfolding dc c0 flt by (simp add: ex_script_segment_def)
  have flt1: "filter (video_started (generatedImages ex_skip_widget)) ?one = []"
    using nst by simp
  have e': "calls k' = []"
    unfolding e(2) c0 flt1 by simp
  from h1 h2 it o a s' b bc' c v' d dc' h4 vt st h7 sk nst k' e(1) e' show ?thesis
    unfolding key by blast
qed

end
